theory Spec2Isabelle
  imports Main "HOL-Library.Char_ord" "HOL-Library.List_Lexorder"
begin

section \<open>Text: Python strings over ASCII\<close>

text \<open>
  The pipeline of \<^verbatim>\<open>backend/data_manager.py\<close> works on Python \<^verbatim>\<open>str\<close> values.
  They are modelled as \<^typ>\<open>string\<close>, read as ASCII text: the character classes below
  are the ASCII part of Python's \<^verbatim>\<open>str.isspace\<close>, \<^verbatim>\<open>\d\<close>, \<^verbatim>\<open>\w\<close>,
  \<^verbatim>\<open>str.lower\<close> and \<^verbatim>\<open>str.upper\<close>; a character outside ASCII is in none of
  the classes and is left alone by the case mappings.
\<close>

definition is_space :: "char \<Rightarrow> bool" where
  "is_space c = (c \<in> set [CHR 0x09, CHR 0x0A, CHR 0x0B, CHR 0x0C, CHR 0x0D,
                            CHR 0x1C, CHR 0x1D, CHR 0x1E, CHR 0x1F, CHR '' ''])"

definition is_digit :: "char \<Rightarrow> bool" where
  "is_digit c = (c \<in> set ''0123456789'')"

definition lower_letters :: string where
  "lower_letters = ''abcdefghijklmnopqrstuvwxyz''"

definition upper_letters :: string where
  "upper_letters = ''ABCDEFGHIJKLMNOPQRSTUVWXYZ''"

definition is_lower :: "char \<Rightarrow> bool" where
  "is_lower c = (c \<in> set lower_letters)"

definition is_word :: "char \<Rightarrow> bool" where
  "is_word c = (c \<in> set lower_letters \<or> c \<in> set upper_letters \<or> is_digit c \<or> c = CHR ''_'')"

definition lower_char :: "char \<Rightarrow> char" where
  "lower_char c = (case map_of (zip upper_letters lower_letters) c of Some d \<Rightarrow> d | None \<Rightarrow> c)"

definition upper_char :: "char \<Rightarrow> char" where
  "upper_char c = (case map_of (zip lower_letters upper_letters) c of Some d \<Rightarrow> d | None \<Rightarrow> c)"

definition lower :: "string \<Rightarrow> string" where
  "lower s = map lower_char s"

definition upper :: "string \<Rightarrow> string" where
  "upper s = map upper_char s"

definition strip :: "string \<Rightarrow> string" where
  "strip s = rev (dropWhile is_space (rev (dropWhile is_space s)))"

text \<open>\<^verbatim>\<open>s.startswith(sub)\<close> and \<^verbatim>\<open>sub in s\<close>.\<close>

fun startswith :: "string \<Rightarrow> string \<Rightarrow> bool" where
  "startswith s [] = True"
| "startswith [] (c # cs) = False"
| "startswith (d # ds) (c # cs) = (d = c \<and> startswith ds cs)"

fun contains :: "string \<Rightarrow> string \<Rightarrow> bool" where
  "contains [] sub = (sub = [])"
| "contains (c # cs) sub = (startswith (c # cs) sub \<or> contains cs sub)"

text \<open>\<^verbatim>\<open>any(pattern in s for pattern in patterns)\<close>.\<close>

definition any_in :: "string list \<Rightarrow> string \<Rightarrow> bool" where
  "any_in patterns s = list_ex (contains s) patterns"

section \<open>Regular expressions as Python's \<^verbatim>\<open>re\<close> matches them\<close>

text \<open>
  The patterns of the program are built from character classes, sequence, alternation,
  greedy repetition, the word boundary \<^verbatim>\<open>\b\<close> and numbered groups. A matcher state is
  the character before the current position (for \<^verbatim>\<open>\b\<close>), the rest of the input and
  the groups captured so far. \<open>ms r x\<close> lists every way of matching \<open>r\<close> from \<open>x\<close>
  in the order in which a backtracking matcher tries them: the left alternative first, the
  longer repetition first. The first element is the match Python reports.
\<close>

type_synonym caps = "(nat \<times> string) list"
type_synonym mstate = "char option \<times> string \<times> caps"

datatype regex =
    Eps
  | Cls "char \<Rightarrow> bool"
  | Seq regex regex
  | Alt regex regex
  | Star regex
  | WordB
  | Grp nat regex

definition at_boundary :: "char option \<Rightarrow> string \<Rightarrow> bool" where
  "at_boundary p s =
     ((case p of None \<Rightarrow> False | Some c \<Rightarrow> is_word c) \<noteq>
      (case s of [] \<Rightarrow> False | c # _ \<Rightarrow> is_word c))"

function ms :: "regex \<Rightarrow> mstate \<Rightarrow> mstate list" where
  "ms Eps x = [x]"
| "ms (Cls P) (p, s, g) =
     (case s of [] \<Rightarrow> [] | c # cs \<Rightarrow> if P c then [(Some c, cs, g)] else [])"
| "ms (Seq a b) x = concat (map (ms b) (ms a x))"
| "ms (Alt a b) x = ms a x @ ms b x"
| "ms (Star a) (p, s, g) =
     concat (map (\<lambda>y. if length (fst (snd y)) < length s then ms (Star a) y else [])
                 (ms a (p, s, g)))
     @ [(p, s, g)]"
| "ms WordB (p, s, g) = (if at_boundary p s then [(p, s, g)] else [])"
| "ms (Grp n a) (p, s, g) =
     map (\<lambda>(p', s', g'). (p', s', (n, take (length s - length s') s) # g')) (ms a (p, s, g))"
  by pat_completeness auto
termination
  by (relation "inv_image (less_than <*lex*> less_than) (\<lambda>(r, p, s, g). (size r, length s))")
     auto

declare ms.simps(5) [simp del]

text \<open>\<^verbatim>\<open>r+\<close>, \<^verbatim>\<open>r?\<close>, a literal word and \<^verbatim>\<open>r{1,2}\<close>.\<close>

definition Plus :: "regex \<Rightarrow> regex" where
  "Plus r = Seq r (Star r)"

definition Opt :: "regex \<Rightarrow> regex" where
  "Opt r = Alt r Eps"

definition Chr :: "char \<Rightarrow> regex" where
  "Chr c = Cls (\<lambda>d. d = c)"

fun Lit :: "string \<Rightarrow> regex" where
  "Lit [] = Eps"
| "Lit (c # cs) = Seq (Chr c) (Lit cs)"

definition OneOrTwo :: "regex \<Rightarrow> regex" where
  "OneOrTwo r = Seq r (Opt r)"

definition first_match :: "regex \<Rightarrow> char option \<Rightarrow> string \<Rightarrow> mstate option" where
  "first_match r p s = (case ms r (p, s, []) of [] \<Rightarrow> None | x # _ \<Rightarrow> Some x)"

text \<open>
  \<^verbatim>\<open>re.sub\<close> and \<^verbatim>\<open>re.findall\<close> scan from the left: at each position the first
  match is taken and the scan goes on behind it, otherwise the character is passed over.
  No pattern of the program matches the empty string, so a match that consumes nothing is
  passed over like a failure.
\<close>

fun re_sub :: "regex \<Rightarrow> (caps \<Rightarrow> string) \<Rightarrow> char option \<Rightarrow> string \<Rightarrow> string" where
  "re_sub r f p [] = []"
| "re_sub r f p (c # cs) =
     (case first_match r p (c # cs) of
        None \<Rightarrow> c # re_sub r f (Some c) cs
      | Some (p', s', g) \<Rightarrow>
          if length s' < length (c # cs) then f g @ re_sub r f p' s'
          else c # re_sub r f (Some c) cs)"

fun re_finditer :: "regex \<Rightarrow> char option \<Rightarrow> string \<Rightarrow> caps list" where
  "re_finditer r p [] = []"
| "re_finditer r p (c # cs) =
     (case first_match r p (c # cs) of
        None \<Rightarrow> re_finditer r (Some c) cs
      | Some (p', s', g) \<Rightarrow>
          if length s' < length (c # cs) then g # re_finditer r p' s'
          else re_finditer r (Some c) cs)"

definition group :: "caps \<Rightarrow> nat \<Rightarrow> string" where
  "group g n = (case map_of g n of None \<Rightarrow> [] | Some t \<Rightarrow> t)"

section \<open>Header normalizer\<close>

text \<open>
  \<^verbatim>\<open>normalize_column_name\<close>: the empty header gives \<^verbatim>\<open>None\<close>; otherwise the header is
  stripped, lower-cased, cleaned by three substitutions and tested against the keyword
  groups in the order of the source. A header that matches no group is returned as it came.
\<close>

definition normalize_column_name :: "string \<Rightarrow> string option" where
  "normalize_column_name column_name =
    (if column_name = [] then None
     else
       let col_name = lower (strip column_name);
           col_name = re_sub (Plus (Cls (\<lambda>c. c = CHR ''_'' \<or> c = CHR ''-'' \<or> is_space c)))
                        (\<lambda>_. '' '') None col_name;
           col_name = re_sub (Cls (\<lambda>c. \<not> is_word c \<and> \<not> is_space c)) (\<lambda>_. []) None col_name;
           col_name = strip (re_sub (Plus (Cls is_space)) (\<lambda>_. '' '') None col_name)
       in
       if any_in [''group no'', ''grp no'', ''group number'', ''group id'', ''grp id''] col_name
         then Some ''Group No.''
       else if any_in [''roll no'', ''roll number'', ''rollno'', ''roll'', ''student id''] col_name
         then Some ''Roll No.''
       else if any_in [''name of the group member'', ''name of group member'',
                       ''group member name'', ''name of members'', ''member name'',
                       ''student name'', ''name''] col_name
               \<and> \<not> contains col_name ''guide'' \<and> \<not> contains col_name ''company''
               \<and> \<not> contains col_name ''panel''
         then Some ''Name of the group member''
       else if any_in [''contact details'', ''contact'', ''phone'', ''mobile'', ''email'',
                       ''contact info''] col_name
         then Some ''Contact details''
       else if any_in [''project domain'', ''projects domain'', ''domain'', ''field'',
                       ''area''] col_name
         then Some ''Project Domain''
       else if any_in [''title of the project'', ''project title'', ''title'', ''final title'',
                       ''project name'', ''title of project''] col_name
         then Some ''Title of the Project''
       else if any_in [''name of the sponsored company'', ''sponsored company'',
                       ''sponsor company'', ''company name'', ''sponsoring company'',
                       ''name of sponsored''] col_name
         then Some ''Name of the sponsored company ''
       else if any_in [''name of the guide'', ''guide name'', ''guide'', ''supervisor'',
                       ''mentor name'', ''faculty guide''] col_name
         then Some ''Name of the Guide''
       else if any_in [''track'', ''panel no'', ''panel number''] col_name
         then Some ''Track''
       else if any_in [''name of the panel'', ''panel name'', ''panel members'',
                       ''panel professors'', ''evaluators'', ''panel faculty''] col_name
         then Some ''Name of the Panel''
       else if any_in [''group id'', ''groups'', ''group nos'', ''assigned groups''] col_name
         then Some ''Group ID''
       else if any_in [''location'', ''room'', ''venue'', ''place''] col_name
         then Some ''Location''
       else Some column_name)"

section \<open>Group-identifier extractor\<close>

text \<open>
  The three pattern families of \<^verbatim>\<open>extract_all_group_ids\<close>:
  \<^verbatim>\<open>\b(BI[AB]-?\s*\d{1,2})\b\<close>, \<^verbatim>\<open>\b(BI[AB]\d{1,2})\b\<close> and
  \<^verbatim>\<open>\b(BI[AB])\s+(\d{1,2})\b\<close>, and the pattern \<^verbatim>\<open>(BI[AB])[-\s]*(\d{1,2})\<close>
  that rewrites a match of the first family to \<^verbatim>\<open>\1-\2\<close>.
\<close>

definition bi_ab :: regex where
  "bi_ab = Seq (Lit ''BI'') (Cls (\<lambda>c. c = CHR ''A'' \<or> c = CHR ''B''))"

definition digits12 :: regex where
  "digits12 = OneOrTwo (Cls is_digit)"

definition standard_re :: regex where
  "standard_re =
     Seq WordB (Seq (Grp 1 (Seq bi_ab (Seq (Opt (Chr CHR ''-''))
                               (Seq (Star (Cls is_space)) digits12)))) WordB)"

definition clean_re :: regex where
  "clean_re =
     Seq (Grp 1 bi_ab) (Seq (Star (Cls (\<lambda>c. c = CHR ''-'' \<or> is_space c))) (Grp 2 digits12))"

definition no_hyphen_re :: regex where
  "no_hyphen_re = Seq WordB (Seq (Grp 1 (Seq bi_ab digits12)) WordB)"

definition space_re :: regex where
  "space_re =
     Seq WordB (Seq (Grp 1 bi_ab) (Seq (Plus (Cls is_space)) (Seq (Grp 2 digits12) WordB)))"

text \<open>\<^verbatim>\<open>str.zfill\<close>: zeros go behind a leading sign.\<close>

definition zfill :: "nat \<Rightarrow> string \<Rightarrow> string" where
  "zfill w s =
     (if w \<le> length s then s
      else case s of
             [] \<Rightarrow> replicate w CHR ''0''
           | c # cs \<Rightarrow>
               if c = CHR ''+'' \<or> c = CHR ''-''
               then c # replicate (w - length s) CHR ''0'' @ cs
               else replicate (w - length s) CHR ''0'' @ s)"

definition standard_ids :: "string \<Rightarrow> string list" where
  "standard_ids cell_str =
     map (\<lambda>g. let match = group g 1;
                   clean_match = re_sub clean_re (\<lambda>h. group h 1 @ ''-'' @ group h 2) None match
               in if length clean_match = 5
                  then take 4 clean_match @ ''0'' @ drop 4 clean_match
                  else clean_match)
         (re_finditer standard_re None cell_str)"

definition no_hyphen_ids :: "string \<Rightarrow> string list" where
  "no_hyphen_ids cell_str =
     map (\<lambda>g. let match = group g 1
               in if length match = 5 then take 3 match @ ''-'' @ drop 3 match
                  else if length match = 4 then take 3 match @ ''-0'' @ drop 3 match
                  else match)
         (re_finditer no_hyphen_re None cell_str)"

definition space_ids :: "string \<Rightarrow> string list" where
  "space_ids cell_str =
     map (\<lambda>g. group g 1 @ ''-'' @ zfill 2 (group g 2))
         (re_finditer space_re None cell_str)"

text \<open>
  One cell of the row: an empty cell is passed over, otherwise the text is upper-cased
  and stripped and the three families are collected.
\<close>

definition cell_group_ids :: "string \<Rightarrow> string list" where
  "cell_group_ids cell_value =
     (if cell_value = [] then []
      else let cell_str = strip (upper cell_value)
           in standard_ids cell_str @ no_hyphen_ids cell_str @ space_ids cell_str)"

text \<open>
  The source collects into a set and returns \<^verbatim>\<open>sorted(list(all_groups))\<close>: the
  identifiers without repetition, in the order of Python's string comparison.
\<close>

definition extract_all_group_ids :: "string list \<Rightarrow> string list" where
  "extract_all_group_ids row_data = sort (remdups (concat (map cell_group_ids row_data)))"

text \<open>The canonical form \<^verbatim>\<open>BI[AB]-NN\<close>.\<close>

definition canonical_group_id :: "string \<Rightarrow> bool" where
  "canonical_group_id g =
     (case g of
        [b, i, d, h, x, y] \<Rightarrow>
          b = CHR ''B'' \<and> i = CHR ''I'' \<and> (d = CHR ''A'' \<or> d = CHR ''B'') \<and> h = CHR ''-''
          \<and> is_digit x \<and> is_digit y
      | _ \<Rightarrow> False)"

section \<open>Name normalization and evaluator assignment\<close>

text \<open>
  \<^verbatim>\<open>normalize_name\<close>: lower case, line breaks to blanks, dots removed, the words
  \<^verbatim>\<open>dr\<close>, \<^verbatim>\<open>prof\<close>, \<^verbatim>\<open>professor\<close> and single letters removed, runs of white
  space collapsed, the result stripped.
\<close>

definition normalize_name :: "string \<Rightarrow> string" where
  "normalize_name name =
     (if name = [] then []
      else
        let name = lower name;
            name = map (\<lambda>c. if c = CHR 0x0A then CHR '' '' else c) name;
            name = map (\<lambda>c. if c = CHR 0x0D then CHR '' '' else c) name;
            name = filter (\<lambda>c. c \<noteq> CHR ''.'') name;
            name = re_sub (Seq WordB (Seq (Grp 1 (Alt (Lit ''dr'') (Alt (Lit ''prof'')
                             (Lit ''professor'')))) WordB)) (\<lambda>_. []) None name;
            name = re_sub (Seq WordB (Seq (Cls is_lower) WordB)) (\<lambda>_. []) None name;
            name = re_sub (Plus (Cls is_space)) (\<lambda>_. '' '') None name
        in strip name)"

text \<open>The relational store: three tables, each a map from its key.\<close>

record project =
  division :: string
  project_domain :: string
  project_title :: string
  sponsor_company :: string
  guide_name :: string
  mentor_name :: string
  mentor_email :: string
  mentor_mobile :: string
  evaluator1_name :: string
  evaluator2_name :: string

record member =
  student_name :: string
  contact_details :: string

record panel_assignment =
  track :: int
  panel_professors :: string
  location :: string
  guide :: string
  reviewer1 :: string
  reviewer2 :: string
  reviewer3 :: "string option"

record database =
  projects :: "string \<rightharpoonup> project"
  members :: "(string \<times> string) \<rightharpoonup> member"
  panel_assignments :: "string \<rightharpoonup> panel_assignment"

record assignment =
  a_group_id :: string
  a_guide :: string
  evaluator1 :: string
  evaluator2 :: string

text \<open>
  \<^verbatim>\<open>assign_evaluators_from_panel\<close>: a panel of fewer than two names is replaced by three
  placeholders; for each group the guide is read from \<^verbatim>\<open>projects\<close> (the empty string
  when there is no such project), the professors whose normalized name differs from the
  guide's are the available evaluators, and the first two of them are assigned, with
  \<^verbatim>\<open>Default Eval 1\<close> and \<^verbatim>\<open>Default Eval 2\<close> standing in for a missing one.
\<close>

definition assign_evaluators_from_panel ::
  "database \<Rightarrow> string list \<Rightarrow> string list \<Rightarrow> assignment list" where
  "assign_evaluators_from_panel db panel_profs group_ids =
     (let panel_profs =
            (if panel_profs = [] \<or> length panel_profs < 2
             then [''Default Prof 1'', ''Default Prof 2'', ''Default Prof 3'']
             else panel_profs)
      in map (\<lambda>group_id.
           let guide_nm = (case projects db group_id of None \<Rightarrow> [] | Some proj_row \<Rightarrow> guide_name proj_row);
               available_evaluators =
                 filter (\<lambda>prof. normalize_name prof \<noteq> normalize_name guide_nm) panel_profs;
               eval1 = (case available_evaluators of [] \<Rightarrow> ''Default Eval 1'' | e # _ \<Rightarrow> e);
               eval2 = (case available_evaluators of
                          _ # e # _ \<Rightarrow> e
                        | _ \<Rightarrow> ''Default Eval 2'')
           in \<lparr>a_group_id = group_id, a_guide = guide_nm, evaluator1 = eval1, evaluator2 = eval2\<rparr>)
         group_ids)"

section \<open>Sheet classifier\<close>

record detected_sheets =
  div_a :: "string option"
  div_b :: "string option"
  schedule :: "string option"

definition is_div_a_name :: "string \<Rightarrow> bool" where
  "is_div_a_name sheet_upper =
     any_in [''FINAL DIV A'', ''FINALDIVA'', ''FINAL_DIV_A'', ''FINAL-DIV-A'',
             ''DIV A'', ''DIVA'', ''DIV-A'', ''DIV_A'',
             ''DIVISION A'', ''DIVISIONA'', ''DIVISION-A'', ''DIVISION_A''] sheet_upper"

definition is_div_b_name :: "string \<Rightarrow> bool" where
  "is_div_b_name sheet_upper =
     any_in [''FINAL DIV B'', ''FINALDIVB'', ''FINAL_DIV_B'', ''FINAL-DIV-B'',
             ''DIV B'', ''DIVB'', ''DIV-B'', ''DIV_B'',
             ''DIVISION B'', ''DIVISIONB'', ''DIVISION-B'', ''DIVISION_B''] sheet_upper"

definition is_schedule_name :: "string \<Rightarrow> bool" where
  "is_schedule_name sheet_upper =
     any_in [''SCHEDULE'', ''SCHED'', ''PANEL SCHEDULE'', ''EVALUATION SCHEDULE'',
             ''PANEL_SCHEDULE'', ''EVALUATION_SCHEDULE'', ''PANEL-SCHEDULE''] sheet_upper"

text \<open>The body of the loop of \<^verbatim>\<open>detect_and_normalize_sheets_robust\<close>, and the loop.\<close>

definition detect_sheet :: "detected_sheets \<Rightarrow> string \<Rightarrow> detected_sheets" where
  "detect_sheet detected sheet_name =
     (let sheet_upper = strip (upper sheet_name)
      in if is_div_a_name sheet_upper then detected\<lparr>div_a := Some sheet_name\<rparr>
         else if is_div_b_name sheet_upper then detected\<lparr>div_b := Some sheet_name\<rparr>
         else if is_schedule_name sheet_upper then detected\<lparr>schedule := Some sheet_name\<rparr>
         else detected)"

definition detect_and_normalize_sheets_robust :: "string list \<Rightarrow> detected_sheets" where
  "detect_and_normalize_sheets_robust sheet_names =
     foldl detect_sheet \<lparr>div_a = None, div_b = None, schedule = None\<rparr> sheet_names"

text \<open>
  \<^verbatim>\<open>[key for key, value in detected_sheets.items() if value is None]\<close>, the keys in
  the order in which the dictionary was built.
\<close>

definition missing_sheets :: "detected_sheets \<Rightarrow> string list" where
  "missing_sheets detected =
     (if div_a detected = None then [''div_a''] else [])
     @ (if div_b detected = None then [''div_b''] else [])
     @ (if schedule detected = None then [''schedule''] else [])"

section \<open>Data frames\<close>

text \<open>
  A cell of a data frame as the walks see it: the missing value \<^verbatim>\<open>NaN\<close>, a whole
  number, or text. \<^verbatim>\<open>str\<close> of a cell is \<^verbatim>\<open>nan\<close>, the decimal numeral, or the
  text itself. Numbers with a fractional part are not modelled.
\<close>

datatype cell = Null | Num int | Str string

definition notnull :: "cell \<Rightarrow> bool" where
  "notnull v = (v \<noteq> Null)"

fun dec_nat :: "nat \<Rightarrow> string" where
  "dec_nat n =
     (if n < 10 then [''0123456789'' ! n]
      else dec_nat (n div 10) @ [''0123456789'' ! (n mod 10)])"

declare dec_nat.simps [simp del]

definition str_int :: "int \<Rightarrow> string" where
  "str_int i = (if i < 0 then CHR ''-'' # dec_nat (nat (- i)) else dec_nat (nat i))"

fun str_cell :: "cell \<Rightarrow> string" where
  "str_cell Null = ''nan''"
| "str_cell (Num n) = str_int n"
| "str_cell (Str t) = t"

text \<open>
  \<^verbatim>\<open>int(x)\<close>: a number is itself; text is stripped and read as an optional sign and
  decimal digits, where single underscores may stand between digits; anything else raises
  \<^verbatim>\<open>ValueError\<close>.
\<close>

datatype error = ValueError

fun digit_groups :: "string \<Rightarrow> bool" where
  "digit_groups [] = False"
| "digit_groups [c] = is_digit c"
| "digit_groups (c # d # cs) =
     (is_digit c \<and> (if d = CHR ''_'' then digit_groups cs else digit_groups (d # cs)))"

definition digit_value :: "char \<Rightarrow> int" where
  "digit_value c = int (of_char c) - 48"

definition int_of_str :: "string \<Rightarrow> int option" where
  "int_of_str t =
     (let u = strip t;
          neg = (case u of [] \<Rightarrow> False | c # _ \<Rightarrow> c = CHR ''-'');
          body = (case u of [] \<Rightarrow> [] | c # cs \<Rightarrow> if c = CHR ''-'' \<or> c = CHR ''+'' then cs else u)
      in if digit_groups body
         then let n = foldl (\<lambda>a c. 10 * a + digit_value c) 0 (filter is_digit body)
              in Some (if neg then - n else n)
         else None)"

definition py_int :: "cell \<Rightarrow> error + int" where
  "py_int v =
     (case v of
        Null \<Rightarrow> Inl ValueError
      | Num n \<Rightarrow> Inr n
      | Str t \<Rightarrow> (case int_of_str t of None \<Rightarrow> Inl ValueError | Some n \<Rightarrow> Inr n))"

text \<open>
  A frame is its column labels and its rows, each row as long as the labels.
  \<^verbatim>\<open>df.empty\<close> holds when there is no column or no row.
\<close>

record frame =
  columns :: "string list"
  rows :: "cell list list"

definition df_empty :: "frame \<Rightarrow> bool" where
  "df_empty df = (columns df = [] \<or> rows df = [])"

definition normalize_dataframe_columns :: "frame \<Rightarrow> frame" where
  "normalize_dataframe_columns df =
     (if df_empty df then df
      else df\<lparr>columns :=
             map (\<lambda>col. case normalize_column_name col of
                           None \<Rightarrow> col
                         | Some normalized \<Rightarrow> if normalized = [] then col else normalized)
                 (columns df)\<rparr>)"

text \<open>
  \<^verbatim>\<open>row.get(key, default)\<close>: the default when no column has the label, the cell when one
  has, and a \<^verbatim>\<open>Series\<close> of the cells when several columns share the label.
\<close>

datatype pyval = PyNone | Scalar cell | Series "cell list"

definition row_get :: "string list \<Rightarrow> cell list \<Rightarrow> string \<Rightarrow> pyval \<Rightarrow> pyval" where
  "row_get cols vals key dflt =
     (case map snd (filter (\<lambda>cv. fst cv = key) (zip cols vals)) of
        [] \<Rightarrow> dflt
      | [v] \<Rightarrow> Scalar v
      | v # w # vs \<Rightarrow> Series (v # w # vs))"

text \<open>
  The roster walk turns a \<^verbatim>\<open>Series\<close> into its first cell
  (\<^verbatim>\<open>v.iloc[0] if not v.empty else ''\<close>).
\<close>

fun first_of_series :: "pyval \<Rightarrow> cell" where
  "first_of_series PyNone = Null"
| "first_of_series (Scalar v) = v"
| "first_of_series (Series vs) = (case vs of [] \<Rightarrow> Str [] | v # _ \<Rightarrow> v)"

definition roster_get :: "string list \<Rightarrow> cell list \<Rightarrow> string \<Rightarrow> cell" where
  "roster_get cols vals key = first_of_series (row_get cols vals key (Scalar (Str [])))"

section \<open>Roster ingestor\<close>

text \<open>\<^verbatim>\<open>INSERT IGNORE\<close>: the row is stored unless its key is taken.\<close>

definition insert_ignore :: "('k \<rightharpoonup> 'v) \<Rightarrow> 'k \<Rightarrow> 'v \<Rightarrow> ('k \<rightharpoonup> 'v)" where
  "insert_ignore t k v = (case t k of None \<Rightarrow> t(k \<mapsto> v) | Some _ \<Rightarrow> t)"

text \<open>
  The branch \<^verbatim>\<open># Normalize group ID format\<close> of the walk: an identifier that starts
  with \<^verbatim>\<open>BI\<close> is left alone; the second branch tests for \<^verbatim>\<open>BIA\<close> and \<^verbatim>\<open>BIB\<close>.
\<close>

definition normalize_group_id :: "string \<Rightarrow> string" where
  "normalize_group_id gid =
     (if startswith gid ''BI'' then gid
      else if startswith gid ''BIA'' \<or> startswith gid ''BIB''
      then (if CHR ''-'' \<notin> set gid \<and> 5 \<le> length gid then take 3 gid @ ''-'' @ drop 3 gid
            else gid)
      else gid)"

text \<open>\<^verbatim>\<open>str(v).strip()[:n] if pd.notnull(v) else ""\<close>.\<close>

definition text_field :: "nat \<Rightarrow> cell \<Rightarrow> string" where
  "text_field n v = (if notnull v then take n (strip (str_cell v)) else [])"

record roster_state =
  group_id :: "string option"
  processed_groups :: "string list"
  processed_members :: nat
  tables :: database

text \<open>
  One row of \<^verbatim>\<open>process_division_enhanced_with_normalization\<close>. A non-blank group cell
  sets the current group and inserts the project; a row with roll number and name inserts
  a member of the current group, if there is one. Nothing in the body raises on the cells
  modelled here, so the handlers of the source have no branch.
\<close>

definition process_division_row ::
  "string \<Rightarrow> string list \<Rightarrow> roster_state \<Rightarrow> cell list \<Rightarrow> roster_state" where
  "process_division_row division_name cols st vals =
     (let group_no_value = roster_get cols vals ''Group No.'';
          st1 =
            (if notnull group_no_value \<and> strip (str_cell group_no_value) \<noteq> []
             then
               let gid = normalize_group_id (strip (str_cell group_no_value));
                   proj = \<lparr>division = division_name,
                           project_domain = text_field 255 (roster_get cols vals ''Project Domain''),
                           project_title = text_field 500 (roster_get cols vals ''Title of the Project''),
                           sponsor_company =
                             text_field 255 (roster_get cols vals ''Name of the sponsored company ''),
                           guide_name = text_field 100 (roster_get cols vals ''Name of the Guide''),
                           mentor_name = [], mentor_email = [], mentor_mobile = [],
                           evaluator1_name = [], evaluator2_name = []\<rparr>
               in st\<lparr>group_id := Some gid,
                      tables := (tables st)\<lparr>projects := insert_ignore (projects (tables st)) gid proj\<rparr>,
                      processed_groups :=
                        (if gid \<in> set (processed_groups st) then processed_groups st
                         else processed_groups st @ [gid])\<rparr>
             else st);
          roll_no_val = roster_get cols vals ''Roll No.'';
          student_name_val = roster_get cols vals ''Name of the group member''
      in case group_id st1 of
           None \<Rightarrow> st1
         | Some gid \<Rightarrow>
             if gid \<noteq> [] \<and> notnull roll_no_val \<and> strip (str_cell roll_no_val) \<noteq> []
                \<and> notnull student_name_val \<and> strip (str_cell student_name_val) \<noteq> []
             then
               let roll_no = strip (str_cell roll_no_val);
                   student = take 100 (strip (str_cell student_name_val));
                   contact_val = roster_get cols vals ''Contact details'';
                   contact = (if notnull contact_val then strip (str_cell contact_val) else [])
               in if roll_no \<noteq> [] \<and> student \<noteq> []
                  then st1\<lparr>tables := (tables st1)\<lparr>members :=
                                insert_ignore (members (tables st1)) (gid, roll_no)
                                  \<lparr>student_name = student, contact_details = contact\<rparr>\<rparr>,
                            processed_members := processed_members st1 + 1\<rparr>
                  else st1
             else st1)"

definition process_division_enhanced_with_normalization ::
  "database \<Rightarrow> frame \<Rightarrow> string \<Rightarrow> (nat \<times> nat) \<times> database" where
  "process_division_enhanced_with_normalization dbs df division_name =
     (if df_empty df then ((0, 0), dbs)
      else
        let df = normalize_dataframe_columns df;
            final = foldl (process_division_row division_name (columns df))
                      \<lparr>group_id = None, processed_groups = [], processed_members = 0,
                        tables = dbs\<rparr>
                      (rows df)
        in ((length (processed_groups final), processed_members final), tables final))"

section \<open>Schedule reconciler and full reconciliation\<close>

text \<open>\<^verbatim>\<open>s.split(sep)\<close>, \<^verbatim>\<open>s.isdigit()\<close> and \<^verbatim>\<open>sep.join(xs)\<close>.\<close>

fun split_on :: "char \<Rightarrow> string \<Rightarrow> string list" where
  "split_on sep [] = [[]]"
| "split_on sep (c # cs) =
     (if c = sep then [] # split_on sep cs
      else case split_on sep cs of [] \<Rightarrow> [[c]] | w # ws \<Rightarrow> (c # w) # ws)"

definition isdigit :: "string \<Rightarrow> bool" where
  "isdigit t = (t \<noteq> [] \<and> list_all is_digit t)"

fun join :: "string \<Rightarrow> string list \<Rightarrow> string" where
  "join sep [] = []"
| "join sep [x] = x"
| "join sep (x # y # ys) = x @ sep @ join sep (y # ys)"

text \<open>
  The panel cell: line breaks and commas separate the names; a name is kept when it has
  more than three characters and is not a number.
\<close>

definition parse_panel :: "string \<Rightarrow> string list" where
  "parse_panel panel_text =
     (if panel_text \<noteq> [] \<and> panel_text \<noteq> ''nan''
      then
        let prof_lines =
              split_on CHR ''|''
                (map (\<lambda>c. if c = CHR '','' then CHR ''|'' else c)
                   (map (\<lambda>c. if c = CHR 0x0A then CHR ''|'' else c) panel_text))
        in filter (\<lambda>clean_prof. 3 < length clean_prof \<and> \<not> isdigit clean_prof)
             (map strip prof_lines)
      else [])"

record sched_state =
  schedule_processed :: nat
  all_scheduled_groups :: "string list"
  sched_tables :: database

text \<open>
  The two statements run for one assignment: the upsert of \<^verbatim>\<open>panel_assignments\<close>
  (on a duplicate key every column but \<^verbatim>\<open>reviewer3\<close> is overwritten) and the update
  of the evaluators of the project, if there is one.
\<close>

definition store_assignment ::
  "int \<Rightarrow> string list \<Rightarrow> string \<Rightarrow> sched_state \<Rightarrow> assignment \<Rightarrow> sched_state" where
  "store_assignment track_no panel_profs loc st a =
     (let gid = a_group_id a;
          dbs = sched_tables st;
          new_row = \<lparr>track = track_no, panel_professors = join [CHR 0x0A] panel_profs,
                      location = loc, guide = a_guide a, reviewer1 = evaluator1 a,
                      reviewer2 = evaluator2 a,
                      reviewer3 = (case panel_assignments dbs gid of
                                     None \<Rightarrow> None | Some old \<Rightarrow> reviewer3 old)\<rparr>;
          dbs = dbs\<lparr>panel_assignments := (panel_assignments dbs)(gid \<mapsto> new_row)\<rparr>;
          dbs = (case projects dbs gid of
                   None \<Rightarrow> dbs
                 | Some proj \<Rightarrow>
                     dbs\<lparr>projects := (projects dbs)(gid \<mapsto>
                            proj\<lparr>evaluator1_name := evaluator1 a,
                                 evaluator2_name := evaluator2 a\<rparr>)\<rparr>)
      in st\<lparr>sched_tables := dbs,
             all_scheduled_groups := List.insert gid (all_scheduled_groups st)\<rparr>)"

text \<open>
  One row of the schedule walk of \<^verbatim>\<open>process_all_data_with_normalization\<close>. The result
  \<open>Inl\<close> is an exception raised in the body: \<^verbatim>\<open>int(track)\<close> on a track that is no
  number, or the truth value of a \<^verbatim>\<open>Series\<close> when two columns are labelled
  \<^verbatim>\<open>Track\<close> or \<^verbatim>\<open>Location\<close>. \<^verbatim>\<open>continue\<close> returns the state as it is. How pandas
  prints a \<^verbatim>\<open>Series\<close> (two panel columns) is the parameter \<open>str_series\<close>.
\<close>

definition process_schedule_row ::
  "(cell list \<Rightarrow> string) \<Rightarrow> string list \<Rightarrow> sched_state \<Rightarrow> cell list \<Rightarrow> error + sched_state" where
  "process_schedule_row str_series cols st vals =
     (case row_get cols vals ''Track'' PyNone of
        PyNone \<Rightarrow> Inr st
      | Series _ \<Rightarrow> Inl ValueError
      | Scalar track_val \<Rightarrow>
          if \<not> notnull track_val then Inr st
          else
           (case py_int track_val of
              Inl e \<Rightarrow> Inl e
            | Inr track_no \<Rightarrow>
                let panel_text =
                      (case row_get cols vals ''Name of the Panel'' (Scalar (Str [])) of
                         PyNone \<Rightarrow> ''None''
                       | Scalar v \<Rightarrow> str_cell v
                       | Series vs \<Rightarrow> str_series vs);
                    panel_profs = parse_panel panel_text;
                    panel_profs =
                      (if panel_profs = []
                       then [''Default Panel '' @ str_int track_no @ '' Prof 1'',
                             ''Default Panel '' @ str_int track_no @ '' Prof 2'',
                             ''Default Panel '' @ str_int track_no @ '' Prof 3'']
                       else panel_profs)
                in (case row_get cols vals ''Location'' (Scalar (Str [])) of
                     PyNone \<Rightarrow> Inl ValueError
                   | Series _ \<Rightarrow> Inl ValueError
                   | Scalar loc_val \<Rightarrow>
                       let loc = (if notnull loc_val then strip (str_cell loc_val)
                                  else ''Room '' @ str_int track_no);
                           row_values = map str_cell (filter notnull vals);
                           group_ids = extract_all_group_ids row_values
                       in if group_ids = [] then Inr st
                          else
                            let assignments =
                                  assign_evaluators_from_panel (sched_tables st) panel_profs group_ids;
                                st = foldl (store_assignment track_no panel_profs loc) st assignments
                            in Inr (st\<lparr>schedule_processed := schedule_processed st + 1\<rparr>))))"

text \<open>
  The handler of the walk: a row that raised is logged and passed over. Every raise of
  the body comes before its first statement on the tables, so the state is the one before
  the row.
\<close>

definition schedule_step ::
  "(cell list \<Rightarrow> string) \<Rightarrow> string list \<Rightarrow> sched_state \<Rightarrow> cell list \<Rightarrow> sched_state" where
  "schedule_step str_series cols st vals =
     (case process_schedule_row str_series cols st vals of Inl e \<Rightarrow> st | Inr st' \<Rightarrow> st')"

definition schedule_walk ::
  "(cell list \<Rightarrow> string) \<Rightarrow> string list \<Rightarrow> sched_state \<Rightarrow> cell list list \<Rightarrow> sched_state" where
  "schedule_walk str_series cols st rws = foldl (schedule_step str_series cols) st rws"

record extracted_data =
  div_a_groups :: nat
  div_b_groups :: nat
  scheduled_groups :: nat
  total_processed :: nat

text \<open>
  \<^verbatim>\<open>process_all_data_with_normalization\<close>: the three tables are cleared, the two
  divisions are ingested, the schedule is walked.
\<close>

definition process_all_data_with_normalization ::
  "(cell list \<Rightarrow> string) \<Rightarrow> database \<Rightarrow> frame \<Rightarrow> frame \<Rightarrow> frame \<Rightarrow> extracted_data \<times> database" where
  "process_all_data_with_normalization str_series dbs div_a_df div_b_df sched =
     (let dbs = dbs\<lparr>panel_assignments := Map.empty\<rparr>;
          dbs = dbs\<lparr>members := Map.empty\<rparr>;
          dbs = dbs\<lparr>projects := Map.empty\<rparr>;
          (a_counts, dbs) = process_division_enhanced_with_normalization dbs div_a_df ''A'';
          (b_counts, dbs) = process_division_enhanced_with_normalization dbs div_b_df ''B'';
          sched = normalize_dataframe_columns sched;
          final = schedule_walk str_series (columns sched)
                    \<lparr>schedule_processed = 0, all_scheduled_groups = [], sched_tables = dbs\<rparr>
                    (rows sched)
      in (\<lparr>div_a_groups = fst a_counts, div_b_groups = fst b_counts,
            scheduled_groups = length (all_scheduled_groups final),
            total_processed = fst a_counts + fst b_counts\<rparr>,
          sched_tables final))"

section \<open>Import of an uploaded workbook\<close>

text \<open>
  The uploaded file is its name and its bytes. Reading it is pandas' work: \<open>excel_file\<close>
  gives \<open>None\<close> when \<^verbatim>\<open>pd.ExcelFile\<close> raises, and otherwise the sheet names in
  workbook order and, for a sheet name and a number of rows to skip, the frame that
  \<^verbatim>\<open>pd.read_excel\<close> returns. The stored workbook is a single slot holding the bytes and
  the metadata of the last upload.
\<close>

record upload =
  filename :: string
  file_bytes :: string

record xls =
  sheet_names :: "string list"
  read_excel :: "string \<Rightarrow> nat \<Rightarrow> frame"

record metadata =
  meta_sheet_names :: detected_sheets
  upload_date :: string
  original_filename :: string

record system =
  admin_file :: "(string \<times> metadata) option"
  relational :: database

datatype response =
    NoFileProvided
  | CouldNotDetect "string list" "string list" detected_sheets
  | ServerError
  | Imported extracted_data detected_sheets "string list" "string list" "string list"

definition import_excel ::
  "(string \<Rightarrow> xls option) \<Rightarrow> (cell list \<Rightarrow> string) \<Rightarrow> string \<Rightarrow> system \<Rightarrow> upload option
     \<Rightarrow> response \<times> system" where
  "import_excel excel_file str_series now sys file =
     (case file of
        None \<Rightarrow> (NoFileProvided, sys)
      | Some f \<Rightarrow>
         (case excel_file (file_bytes f) of
            None \<Rightarrow> (ServerError, sys)
          | Some x \<Rightarrow>
              let detected = detect_and_normalize_sheets_robust (sheet_names x);
                  missing = missing_sheets detected
              in if missing \<noteq> [] then (CouldNotDetect missing (sheet_names x) detected, sys)
                 else
                  (case (div_a detected, div_b detected, schedule detected) of
                     (Some a_sheet, Some b_sheet, Some s_sheet) \<Rightarrow>
                       let meta = \<lparr>meta_sheet_names = detected, upload_date = now,
                                    original_filename = filename f\<rparr>;
                           sys = sys\<lparr>admin_file := Some (file_bytes f, meta)\<rparr>;
                           div_a_df = normalize_dataframe_columns (read_excel x a_sheet 3);
                           div_b_df = normalize_dataframe_columns (read_excel x b_sheet 3);
                           sched = normalize_dataframe_columns (read_excel x s_sheet 2);
                           (extracted, dbs) =
                             process_all_data_with_normalization str_series (relational sys)
                               div_a_df div_b_df sched
                       in (Imported extracted detected (columns div_a_df) (columns div_b_df)
                             (columns sched),
                           sys\<lparr>relational := dbs\<rparr>)
                   | _ \<Rightarrow> (ServerError, sys))))"

section \<open>Editing a cell of the stored workbook\<close>

text \<open>
  The stored workbook as the spreadsheet library loads it: worksheets in order, each a
  title and a grid of cells addressed from 1; a cell has a value and the five style
  attributes the writer handles. Of a font and an alignment the attributes that
  \<^verbatim>\<open>update_cell_preserve_format\<close> copies are named; the attributes it does not name are
  kept together in \<open>font_other\<close> and \<open>align_other\<close>, \<open>None\<close> being the library's
  default. Assigning a text or a number to a cell changes its value only.
\<close>

datatype xl_value = XNone | XNum int | XStr string

record font =
  font_name :: "string option"
  font_size :: "int option"
  font_bold :: bool
  font_italic :: bool
  font_vert_align :: "string option"
  font_underline :: "string option"
  font_strike :: bool
  font_color :: "string option"
  font_other :: "string option"

record alignment =
  align_horizontal :: "string option"
  align_vertical :: "string option"
  align_text_rotation :: int
  align_wrap_text :: bool
  align_shrink_to_fit :: bool
  align_indent :: int
  align_other :: "string option"

record xl_cell =
  cell_value :: xl_value
  cell_font :: font
  cell_alignment :: alignment
  cell_border :: string
  cell_fill :: string
  cell_number_format :: string

record worksheet =
  title :: string
  cells :: "int \<times> int \<Rightarrow> xl_cell"











section \<open>The roster walk over a database that refuses statements\<close>






section \<open>Notions used in the statements and proofs\<close>

text \<open>
  The strings a pattern can consume, whatever the context: repetition is the star of the
  language, the word boundary consumes nothing, a group consumes what its body does.
\<close>

inductive_set star :: "string set \<Rightarrow> string set" for L :: "string set" where
  star_nil: "[] \<in> star L"
| star_step: "u \<in> L \<Longrightarrow> v \<in> star L \<Longrightarrow> u @ v \<in> star L"

fun lang :: "regex \<Rightarrow> string set" where
  "lang Eps = {[]}"
| "lang (Cls P) = {[c] | c. P c}"
| "lang (Seq a b) = {u @ v | u v. u \<in> lang a \<and> v \<in> lang b}"
| "lang (Alt a b) = lang a \<union> lang b"
| "lang (Star a) = star (lang a)"
| "lang WordB = {[]}"
| "lang (Grp n a) = lang a"

fun group_free :: "regex \<Rightarrow> bool" where
  "group_free Eps = True"
| "group_free (Cls P) = True"
| "group_free (Seq a b) = (group_free a \<and> group_free b)"
| "group_free (Alt a b) = (group_free a \<and> group_free b)"
| "group_free (Star a) = group_free a"
| "group_free WordB = True"
| "group_free (Grp n a) = False"

definition digits_1_2 :: "string \<Rightarrow> bool" where
  "digits_1_2 ds =
     ((\<exists>x. ds = [x] \<and> is_digit x) \<or> (\<exists>x y. ds = [x, y] \<and> is_digit x \<and> is_digit y))"

text \<open>A row of a roster frame has a group header when its group cell is not blank.\<close>

definition has_group_header :: "string list \<Rightarrow> cell list \<Rightarrow> bool" where
  "has_group_header cols vals =
     (notnull (roster_get cols vals ''Group No.'')
      \<and> strip (str_cell (roster_get cols vals ''Group No.'')) \<noteq> [])"

text \<open>The last element of a list, if there is one.\<close>

definition last_opt :: "'a list \<Rightarrow> 'a option" where
  "last_opt xs = (if xs = [] then None else Some (last xs))"

definition empty_db :: database where
  "empty_db = \<lparr>projects = Map.empty, members = Map.empty, panel_assignments = Map.empty\<rparr>"

text \<open>
  The role of a sheet name as the classifier decides it (the first of the three tests
  that holds), the entry of a role in the result, and the sheet names whose text matches
  the keyword set of a role, whatever the other tests say.
\<close>

datatype role = DivA | DivB | Schedule

definition sheet_role :: "string \<Rightarrow> role option" where
  "sheet_role sheet_name =
     (let sheet_upper = strip (upper sheet_name)
      in if is_div_a_name sheet_upper then Some DivA
         else if is_div_b_name sheet_upper then Some DivB
         else if is_schedule_name sheet_upper then Some Schedule
         else None)"

fun detected_role :: "role \<Rightarrow> detected_sheets \<Rightarrow> string option" where
  "detected_role DivA d = div_a d"
| "detected_role DivB d = div_b d"
| "detected_role Schedule d = schedule d"

definition sheets_of_role :: "role \<Rightarrow> string list \<Rightarrow> string list" where
  "sheets_of_role r names = filter (\<lambda>n. sheet_role n = Some r) names"

fun matches_keywords :: "role \<Rightarrow> string \<Rightarrow> bool" where
  "matches_keywords DivA n = is_div_a_name (strip (upper n))"
| "matches_keywords DivB n = is_div_b_name (strip (upper n))"
| "matches_keywords Schedule n = is_schedule_name (strip (upper n))"

definition keyword_matches :: "role \<Rightarrow> string list \<Rightarrow> string list" where
  "keyword_matches r names = filter (matches_keywords r) names"

text \<open>A schedule sheet under the canonical header names, with one data row.\<close>

definition canonical_schedule :: frame where
  "canonical_schedule =
     \<lparr>columns = [''Track'', ''Name of the Panel'', ''Group ID'', ''Location''],
      rows = [[Num 3, Str ''Dr. X Y Rao'', Str ''BIA-01 BIA-02'', Str ''Lab 1'']]\<rparr>"

text \<open>The header names that the normalizer returns, as the source spells them.\<close>

definition canonical_headers :: "string list" where
  "canonical_headers =
     [''Group No.'', ''Roll No.'', ''Name of the group member'', ''Contact details'',
      ''Project Domain'', ''Title of the Project'', ''Name of the sponsored company '',
      ''Name of the Guide'', ''Track'', ''Name of the Panel'', ''Group ID'', ''Location'']"













text \<open>
  The division-A sheet of the end-to-end roster scenario: the first data row names the
  group \<^verbatim>\<open>BIA1\<close>, the second has a blank group cell.
\<close>

definition scenario_div_a :: frame where
  "scenario_div_a =
     \<lparr>columns = [''Group No.'', ''Roll No.'', ''Name''],
      rows = [[Str ''BIA1'', Str ''21'', Str ''Asha K''],
              [Null, Str ''22'', Str ''Ravi M'']]\<rparr>"

definition scenario_tables :: database where
  "scenario_tables =
     \<lparr>projects = [''BIA1'' \<mapsto>
          \<lparr>division = ''A'', project_domain = [], project_title = [], sponsor_company = [],
           guide_name = [], mentor_name = [], mentor_email = [], mentor_mobile = [],
           evaluator1_name = [], evaluator2_name = []\<rparr>],
      members = [(''BIA1'', ''21'') \<mapsto> \<lparr>student_name = ''Asha K'', contact_details = []\<rparr>,
                 (''BIA1'', ''22'') \<mapsto> \<lparr>student_name = ''Ravi M'', contact_details = []\<rparr>],
      panel_assignments = Map.empty\<rparr>"

text \<open>A sheet with its header row and no data row.\<close>

definition no_rows :: "string list \<Rightarrow> frame" where
  "no_rows cols = \<lparr>columns = cols, rows = []\<rparr>"

text \<open>A roster sheet whose first member row precedes the first group header.\<close>

definition orphan_first_div_a :: frame where
  "orphan_first_div_a =
     \<lparr>columns = [''Group No.'', ''Roll No.'', ''Name''],
      rows = [[Null, Str ''20'', Str ''Early E''],
              [Str ''BIA-01'', Str ''21'', Str ''Asha K'']]\<rparr>"

text \<open>
  The panel that evaluators are drawn from (the three placeholder professors when fewer
  than two names are given), and the professors of a panel whose normalized name differs
  from that of a guide, in the order of the panel.
\<close>

definition effective_panel :: "string list \<Rightarrow> string list" where
  "effective_panel panel_profs =
     (if panel_profs = [] \<or> length panel_profs < 2
      then [''Default Prof 1'', ''Default Prof 2'', ''Default Prof 3'']
      else panel_profs)"

definition available_for :: "string \<Rightarrow> string list \<Rightarrow> string list" where
  "available_for g profs = filter (\<lambda>prof. normalize_name prof \<noteq> normalize_name g) profs"

text \<open>A store with the one project \<^verbatim>\<open>BIA-01\<close> and a given guide.\<close>

definition db_with_guide :: "string \<Rightarrow> database" where
  "db_with_guide g =
     \<lparr>projects = [''BIA-01'' \<mapsto>
          \<lparr>division = ''A'', project_domain = [], project_title = [], sponsor_company = [],
           guide_name = g, mentor_name = [], mentor_email = [], mentor_mobile = [],
           evaluator1_name = [], evaluator2_name = []\<rparr>],
      members = Map.empty, panel_assignments = Map.empty\<rparr>"

definition placeholder_case :: "assignment list" where
  "placeholder_case =
     assign_evaluators_from_panel (db_with_guide ''Default Eval 1'')
       [''Default Eval 1'', ''DEFAULT EVAL 1''] [''BIA-01'']"

definition sharma_case :: "assignment list" where
  "sharma_case =
     assign_evaluators_from_panel (db_with_guide ''a b sharma'')
       [''Dr. A B Sharma'', ''Prof. X Y Rao'', ''Dr. Z W Iyer''] [''BIA-01'']"

text \<open>
  An upload whose workbook has a division-A sheet and a sheet of notes, and a system
  that already holds data.
\<close>

definition two_sheet_xls :: xls where
  "two_sheet_xls =
     \<lparr>sheet_names = [''FINAL DIV-A'', ''Notes''],
      read_excel = (\<lambda>sheet skiprows. \<lparr>columns = [], rows = []\<rparr>)\<rparr>"

definition two_sheet_upload :: upload where
  "two_sheet_upload = \<lparr>filename = ''roster.xlsx'', file_bytes = ''PK''\<rparr>"

definition system_in_use :: system where
  "system_in_use = \<lparr>admin_file = None, relational = db_with_guide ''Dr. Rao''\<rparr>"







section \<open>The tables after clearing\<close>

lemma cleared_tables:
  "dbs\<lparr>panel_assignments := Map.empty, members := Map.empty, projects := Map.empty\<rparr> = empty_db"
  by (cases dbs) (simp add: empty_db_def)


section \<open>The matcher consumes words of the pattern's language\<close>

lemma ms_sound:
  "(p', s', g') \<in> set (ms r (p, s, g)) \<Longrightarrow> \<exists>m. m \<in> lang r \<and> s = m @ s'"
proof (induction r "(p, s, g)" arbitrary: p s g p' s' g' rule: ms.induct)
  case (1) then show ?case by simp
next
  case (2 P p s g) then show ?case by (auto split: list.splits if_splits)
next
  case (3 a b p s g)
  from "3.prems" obtain p1 s1 g1 where
    a: "(p1, s1, g1) \<in> set (ms a (p, s, g))" and b: "(p', s', g') \<in> set (ms b (p1, s1, g1))"
    by auto
  from "3.hyps"(1)[OF a] obtain m1 where m1: "m1 \<in> lang a" "s = m1 @ s1" by blast
  from "3.hyps"(2)[OF a b] obtain m2 where m2: "m2 \<in> lang b" "s1 = m2 @ s'" by blast
  show ?case using m1 m2 by (intro exI[of _ "m1 @ m2"]) auto
next
  case (4 a b p s g) then show ?case by fastforce
next
  case (5 a p s g)
  from "5.prems" consider
    (rec) p1 s1 g1 where "(p1, s1, g1) \<in> set (ms a (p, s, g))" "length s1 < length s"
        "(p', s', g') \<in> set (ms (Star a) (p1, s1, g1))"
    | (stop) "(p', s', g') = (p, s, g)"
    by (subst (asm) ms.simps(5)) (auto split: if_splits)
  then show ?case
  proof cases
    case rec
    from "5.hyps"(1)[OF rec(1)] obtain m1 where m1: "m1 \<in> lang a" "s = m1 @ s1" by blast
    from "5.hyps"(2)[OF rec(1) _ rec(3)] rec(2) obtain m2 where m2: "m2 \<in> lang (Star a)" "s1 = m2 @ s'"
      by auto
    show ?thesis using m1 m2 by (intro exI[of _ "m1 @ m2"]) (auto intro: star_step)
  next
    case stop then show ?thesis by (auto intro: star_nil)
  qed
next
  case (6 p s g) then show ?case by (auto split: if_splits)
next
  case (7 n a p s g) then show ?case by auto
qed

lemma ms_group_free:
  "(p', s', g') \<in> set (ms r (p, s, g)) \<Longrightarrow> group_free r \<Longrightarrow> g' = g"
proof (induction r "(p, s, g)" arbitrary: p s g p' s' g' rule: ms.induct)
  case (1) then show ?case by simp
next
  case (2 P p s g) then show ?case by (auto split: list.splits if_splits)
next
  case (3 a b p s g)
  from "3.prems" obtain p1 s1 g1 where
    a: "(p1, s1, g1) \<in> set (ms a (p, s, g))" and b: "(p', s', g') \<in> set (ms b (p1, s1, g1))"
    by auto
  from "3.hyps"(1)[OF a] "3.prems" have "g1 = g" by simp
  moreover from "3.hyps"(2)[OF a b] "3.prems" have "g' = g1" by simp
  ultimately show ?case by simp
next
  case (4 a b p s g) then show ?case by fastforce
next
  case (5 a p s g)
  from "5.prems" consider
    (rec) p1 s1 g1 where "(p1, s1, g1) \<in> set (ms a (p, s, g))" "length s1 < length s"
        "(p', s', g') \<in> set (ms (Star a) (p1, s1, g1))"
    | (stop) "(p', s', g') = (p, s, g)"
    by (subst (asm) ms.simps(5)) (auto split: if_splits)
  then show ?case
  proof cases
    case rec
    from "5.hyps"(1)[OF rec(1)] "5.prems" have "g1 = g" by simp
    moreover from "5.hyps"(2)[OF rec(1) _ rec(3)] rec(2) "5.prems" have "g' = g1" by simp
    ultimately show ?thesis by simp
  next
    case stop then show ?thesis by simp
  qed
next
  case (6 p s g) then show ?case by (auto split: if_splits)
next
  case (7 n a p s g) then show ?case by auto
qed


lemma star_cls_chars: "m \<in> star {[c] | c. P c} \<Longrightarrow> \<forall>c\<in>set m. P c"
  by (induction rule: star.induct) auto

lemma lang_bi_ab: "m \<in> lang bi_ab \<Longrightarrow> m = ''BIA'' \<or> m = ''BIB''"
  by (auto simp: bi_ab_def Chr_def)

lemma lang_digits12: "m \<in> lang digits12 \<Longrightarrow> digits_1_2 m"
  by (auto simp: digits12_def OneOrTwo_def Opt_def digits_1_2_def)

lemma digit_zero: "is_digit CHR ''0''"
  by (simp add: is_digit_def)

lemma digit_not_sign: "is_digit c \<Longrightarrow> c \<noteq> CHR ''+'' \<and> c \<noteq> CHR ''-''"
  by (auto simp: is_digit_def)

lemma digit_not_space: "is_digit c \<Longrightarrow> \<not> is_space c"
  by (auto simp: is_digit_def is_space_def)

lemma ms_Grp_elem:
  assumes "(p', s', g') \<in> set (ms (Grp n r) (p, s, g))"
  shows "\<exists>m g1. m \<in> lang r \<and> g' = (n, m) # g1 \<and> (p', s', g1) \<in> set (ms r (p, s, g))"
proof -
  from assms obtain g1 where
    g1: "(p', s', g1) \<in> set (ms r (p, s, g))" "g' = (n, take (length s - length s') s) # g1"
    by auto
  from ms_sound[OF g1(1)] obtain m where "m \<in> lang r" "s = m @ s'" by blast
  with g1 show ?thesis by auto
qed

lemma ms_WordB_elem: "z \<in> set (ms WordB x) \<Longrightarrow> z = x"
  by (cases x) (auto split: if_splits)

lemma ms_Seq_elem: "z \<in> set (ms (Seq a b) x) \<Longrightarrow> \<exists>y\<in>set (ms a x). z \<in> set (ms b y)"
  by auto

text \<open>Every capture list that the scan reports comes from a match at some position.\<close>

lemma finditer_ms:
  "g \<in> set (re_finditer r p s) \<Longrightarrow> \<exists>p0 s0 p' s'. (p', s', g) \<in> set (ms r (p0, s0, []))"
proof (induction r p s rule: re_finditer.induct)
  case (1 r p) then show ?case by simp
next
  case (2 r p c cs)
  show ?case
  proof (cases "first_match r p (c # cs)")
    case None
    with 2 show ?thesis by simp
  next
    case (Some x)
    obtain p1 s1 g1 where x: "x = (p1, s1, g1)" by (cases x) auto
    have mem: "(p1, s1, g1) \<in> set (ms r (p, c # cs, []))"
      using Some x by (auto simp: first_match_def split: list.splits)
    show ?thesis
    proof (cases "length s1 < length (c # cs)")
      case True
      with "2.prems" Some x have "g = g1 \<or> g \<in> set (re_finditer r p1 s1)" by auto
      then show ?thesis
      proof
        assume "g = g1" with mem show ?thesis by blast
      next
        assume "g \<in> set (re_finditer r p1 s1)"
        with "2.IH"(2)[OF Some] x True show ?thesis by auto
      qed
    next
      case False
      with "2.prems" Some x have "g \<in> set (re_finditer r (Some c) cs)" by auto
      with "2.IH"(3)[OF Some] x False show ?thesis by auto
    qed
  qed
qed

text \<open>A greedy repetition of a class first takes the whole run of the class.\<close>

lemma star_cls_greedy:
  "\<forall>c\<in>set xs. P c \<Longrightarrow> (case rest of [] \<Rightarrow> True | c # _ \<Rightarrow> \<not> P c) \<Longrightarrow>
   \<exists>p' tl. ms (Star (Cls P)) (p, xs @ rest, g) = (p', rest, g) # tl"
proof (induction xs arbitrary: p)
  case Nil
  then show ?case by (subst ms.simps(5)) (auto split: list.splits)
next
  case (Cons x xs)
  from Cons.IH[of "Some x"] Cons.prems obtain p' tl where
    "ms (Star (Cls P)) (Some x, xs @ rest, g) = (p', rest, g) # tl"
    by auto
  with Cons.prems show ?case by (subst ms.simps(5)) auto
qed

lemma ms_digits12_hd:
  assumes "digits_1_2 ds"
  shows "\<exists>p' tl. ms (Grp n digits12) (p, ds, g) = (p', [], (n, ds) # g) # tl"
  using assms by (auto simp add: digits_1_2_def digits12_def OneOrTwo_def Opt_def)

lemma ms_bi_ab:
  "d = CHR ''A'' \<or> d = CHR ''B'' \<Longrightarrow>
   ms (Grp 1 bi_ab) (p, CHR ''B'' # CHR ''I'' # d # rest, g)
   = [(Some d, rest, (1, [CHR ''B'', CHR ''I'', d]) # g)]"
  by (auto simp add: bi_ab_def Chr_def)

section \<open>Group identifiers are canonical\<close>

text \<open>
  The rewriting of a match of the first family: whatever hyphens and blanks stand between
  the prefix and the digits, the result is prefix, hyphen, digits.
\<close>

lemma clean_sub:
  assumes d: "d = CHR ''A'' \<or> d = CHR ''B''"
    and sep: "\<forall>c\<in>set sep. c = CHR ''-'' \<or> is_space c"
    and ds: "digits_1_2 ds"
  shows "re_sub clean_re (\<lambda>h. group h 1 @ ''-'' @ group h 2) None
           (CHR ''B'' # CHR ''I'' # d # sep @ ds)
         = CHR ''B'' # CHR ''I'' # d # CHR ''-'' # ds"
proof -
  let ?P = "\<lambda>c. c = CHR ''-'' \<or> is_space c"
  let ?g1 = "[(1::nat, [CHR ''B'', CHR ''I'', d])]"
  let ?s = "CHR ''B'' # CHR ''I'' # d # sep @ ds"
  have nd: "case ds of [] \<Rightarrow> True | c # _ \<Rightarrow> \<not> ?P c"
    using ds digit_not_sign digit_not_space by (auto simp: digits_1_2_def)
  from star_cls_greedy[of sep ?P ds "Some d" ?g1, OF sep nd] obtain p2 tl where
    st: "ms (Star (Cls ?P)) (Some d, sep @ ds, ?g1) = (p2, ds, ?g1) # tl"
    by blast
  from ms_digits12_hd[OF ds, of 2 p2 ?g1] obtain p3 tl3 where
    dg: "ms (Grp 2 digits12) (p2, ds, ?g1) = (p3, [], (2, ds) # ?g1) # tl3"
    by blast
  have "ms clean_re (None, ?s, [])
        = concat (map (ms (Seq (Star (Cls ?P)) (Grp 2 digits12))) (ms (Grp 1 bi_ab) (None, ?s, [])))"
    unfolding clean_re_def by (simp only: ms.simps(3))
  also have "\<dots> = ms (Seq (Star (Cls ?P)) (Grp 2 digits12)) (Some d, sep @ ds, ?g1)"
    by (simp only: ms_bi_ab[OF d]) simp
  also have "\<dots> = concat (map (ms (Grp 2 digits12)) ((p2, ds, ?g1) # tl))"
    by (simp only: ms.simps(3) st)
  also have "\<dots> = (p3, [], (2, ds) # ?g1) # tl3 @ concat (map (ms (Grp 2 digits12)) tl)"
    by (simp only: list.map concat.simps dg append_Cons)
  finally have "first_match clean_re None ?s = Some (p3, [], (2, ds) # ?g1)"
    by (simp only: first_match_def list.case)
  then show ?thesis by (simp add: group_def)
qed

lemma wrapped_group:
  assumes "(p', s', g) \<in> set (ms (Seq WordB (Seq (Grp 1 r) WordB)) (p0, s0, g0))"
  shows "group g 1 \<in> lang r"
proof -
  from ms_Seq_elem[OF assms] obtain y where
    y: "y \<in> set (ms WordB (p0, s0, g0))" "(p', s', g) \<in> set (ms (Seq (Grp 1 r) WordB) y)"
    by blast
  from ms_WordB_elem[OF y(1)] y(2) have "(p', s', g) \<in> set (ms (Seq (Grp 1 r) WordB) (p0, s0, g0))"
    by simp
  from ms_Seq_elem[OF this] obtain z where
    z: "z \<in> set (ms (Grp 1 r) (p0, s0, g0))" "(p', s', g) \<in> set (ms WordB z)"
    by blast
  from ms_WordB_elem[OF z(2)] z(1) have "(p', s', g) \<in> set (ms (Grp 1 r) (p0, s0, g0))"
    by simp
  from ms_Grp_elem[OF this] show ?thesis by (auto simp: group_def)
qed

lemma space_groups:
  assumes "(p', s', g) \<in> set (ms space_re (p0, s0, g0))"
  shows "group g 1 \<in> lang bi_ab \<and> group g 2 \<in> lang digits12"
proof -
  let ?r3 = "Seq (Grp 2 digits12) WordB"
  let ?r2 = "Seq (Plus (Cls is_space)) ?r3"
  let ?r1 = "Seq (Grp 1 bi_ab) ?r2"
  from assms have "(p', s', g) \<in> set (ms (Seq WordB ?r1) (p0, s0, g0))"
    by (simp only: space_re_def)
  from ms_Seq_elem[OF this] obtain y where
    y: "y \<in> set (ms WordB (p0, s0, g0))" "(p', s', g) \<in> set (ms ?r1 y)" by blast
  from ms_WordB_elem[OF y(1)] y(2) have "(p', s', g) \<in> set (ms ?r1 (p0, s0, g0))" by simp
  from ms_Seq_elem[OF this] obtain y1 where
    y1: "y1 \<in> set (ms (Grp 1 bi_ab) (p0, s0, g0))" "(p', s', g) \<in> set (ms ?r2 y1)" by blast
  obtain p1 s1 g1 where y1eq: "y1 = (p1, s1, g1)" by (cases y1) auto
  from ms_Grp_elem[of p1 s1 g1 1 bi_ab p0 s0 g0] y1(1) y1eq obtain m1 h1 where
    m1: "m1 \<in> lang bi_ab" "g1 = (1, m1) # h1" by blast
  from ms_Seq_elem[OF y1(2)] obtain y2 where
    y2: "y2 \<in> set (ms (Plus (Cls is_space)) y1)" "(p', s', g) \<in> set (ms ?r3 y2)" by blast
  obtain p2 s2 g2 where y2eq: "y2 = (p2, s2, g2)" by (cases y2) auto
  have "group_free (Plus (Cls is_space))" by (simp add: Plus_def)
  from ms_group_free[OF _ this, of p2 s2 g2 p1 s1 g1] y2(1) y1eq y2eq have g2: "g2 = g1" by simp
  from ms_Seq_elem[OF y2(2)] obtain y3 where
    y3: "y3 \<in> set (ms (Grp 2 digits12) y2)" "(p', s', g) \<in> set (ms WordB y3)" by blast
  from ms_WordB_elem[OF y3(2)] y3(1) y2eq
  have "(p', s', g) \<in> set (ms (Grp 2 digits12) (p2, s2, g2))" by simp
  from ms_Grp_elem[OF this] obtain m2 h2 where
    m2: "m2 \<in> lang digits12" "g = (2, m2) # h2" "(p', s', h2) \<in> set (ms digits12 (p2, s2, g2))"
    by blast
  have "group_free digits12" by (simp add: digits12_def OneOrTwo_def Opt_def)
  from ms_group_free[OF m2(3) this] have "h2 = g2" .
  with m1 m2 g2 show ?thesis by (simp add: group_def)
qed

lemma standard_shape:
  assumes "m \<in> lang (Seq bi_ab (Seq (Opt (Chr CHR ''-'')) (Seq (Star (Cls is_space)) digits12)))"
  obtains d sep ds where "m = CHR ''B'' # CHR ''I'' # d # sep @ ds"
    "d = CHR ''A'' \<or> d = CHR ''B''" "\<forall>c\<in>set sep. c = CHR ''-'' \<or> is_space c" "digits_1_2 ds"
proof -
  from assms obtain b h sp ds where
    m: "m = b @ h @ sp @ ds" and b: "b \<in> lang bi_ab" and h: "h \<in> lang (Opt (Chr CHR ''-''))"
    and sp: "sp \<in> lang (Star (Cls is_space))" and ds: "ds \<in> lang digits12"
    by auto
  from lang_bi_ab[OF b] obtain d where d: "b = [CHR ''B'', CHR ''I'', d]" "d = CHR ''A'' \<or> d = CHR ''B''"
    by auto
  from h have h': "h = [] \<or> h = ''-''" by (auto simp: Opt_def Chr_def)
  from sp have sp': "\<forall>c\<in>set sp. is_space c" using star_cls_chars[of sp is_space] by simp
  from h' sp' have "\<forall>c\<in>set (h @ sp). c = CHR ''-'' \<or> is_space c" by auto
  moreover from m d have "m = CHR ''B'' # CHR ''I'' # d # (h @ sp) @ ds" by simp
  ultimately show ?thesis using d(2) lang_digits12[OF ds] that by blast
qed

lemma standard_ids_canonical:
  assumes "x \<in> set (standard_ids cell_str)"
  shows "canonical_group_id x"
proof -
  let ?inner = "Seq bi_ab (Seq (Opt (Chr CHR ''-'')) (Seq (Star (Cls is_space)) digits12))"
  let ?clean = "re_sub clean_re (\<lambda>h. group h 1 @ ''-'' @ group h 2) None"
  from assms have
    "x \<in> (\<lambda>g. if length (?clean (group g 1)) = 5
               then take 4 (?clean (group g 1)) @ ''0'' @ drop 4 (?clean (group g 1))
               else ?clean (group g 1)) ` set (re_finditer standard_re None cell_str)"
    unfolding standard_ids_def Let_def set_map .
  then obtain g where g: "g \<in> set (re_finditer standard_re None cell_str)"
    and x: "x = (if length (?clean (group g 1)) = 5
               then take 4 (?clean (group g 1)) @ ''0'' @ drop 4 (?clean (group g 1))
               else ?clean (group g 1))"
    by (rule imageE)
  from finditer_ms[OF g] obtain p0 s0 p' s' where
    "(p', s', g) \<in> set (ms standard_re (p0, s0, []))" by blast
  then have "group g 1 \<in> lang ?inner"
    unfolding standard_re_def by (rule wrapped_group)
  then obtain d sep ds where
    m: "group g 1 = CHR ''B'' # CHR ''I'' # d # sep @ ds" and d: "d = CHR ''A'' \<or> d = CHR ''B''"
    and sep: "\<forall>c\<in>set sep. c = CHR ''-'' \<or> is_space c" and ds: "digits_1_2 ds"
    by (rule standard_shape)
  have cl: "?clean (group g 1) = CHR ''B'' # CHR ''I'' # d # CHR ''-'' # ds"
    unfolding m by (rule clean_sub[OF d sep ds])
  have "x = (if length ds = 1 then CHR ''B'' # CHR ''I'' # d # CHR ''-'' # CHR ''0'' # ds
             else CHR ''B'' # CHR ''I'' # d # CHR ''-'' # ds)"
    unfolding x cl using ds by (auto simp: digits_1_2_def)
  with ds d show ?thesis
    by (auto simp: canonical_group_id_def digit_zero digits_1_2_def)
qed

lemma no_hyphen_ids_canonical:
  assumes "x \<in> set (no_hyphen_ids cell_str)"
  shows "canonical_group_id x"
proof -
  from assms have
    "x \<in> (\<lambda>g. if length (group g 1) = 5 then take 3 (group g 1) @ ''-'' @ drop 3 (group g 1)
               else if length (group g 1) = 4 then take 3 (group g 1) @ ''-0'' @ drop 3 (group g 1)
               else group g 1) ` set (re_finditer no_hyphen_re None cell_str)"
    unfolding no_hyphen_ids_def Let_def set_map .
  then obtain g where g: "g \<in> set (re_finditer no_hyphen_re None cell_str)"
    and x: "x = (if length (group g 1) = 5 then take 3 (group g 1) @ ''-'' @ drop 3 (group g 1)
               else if length (group g 1) = 4 then take 3 (group g 1) @ ''-0'' @ drop 3 (group g 1)
               else group g 1)"
    by (rule imageE)
  from finditer_ms[OF g] obtain p0 s0 p' s' where
    "(p', s', g) \<in> set (ms no_hyphen_re (p0, s0, []))" by blast
  then have "group g 1 \<in> lang (Seq bi_ab digits12)"
    unfolding no_hyphen_re_def by (rule wrapped_group)
  then obtain b ds where m: "group g 1 = b @ ds" and b: "b \<in> lang bi_ab" and ds: "ds \<in> lang digits12"
    by auto
  from lang_bi_ab[OF b] lang_digits12[OF ds] show ?thesis unfolding x m
    by (auto simp: canonical_group_id_def digit_zero digits_1_2_def)
qed

lemma space_ids_canonical:
  assumes "x \<in> set (space_ids cell_str)"
  shows "canonical_group_id x"
proof -
  from assms have
    "x \<in> (\<lambda>g. group g 1 @ ''-'' @ zfill 2 (group g 2)) ` set (re_finditer space_re None cell_str)"
    unfolding space_ids_def set_map .
  then obtain g where g: "g \<in> set (re_finditer space_re None cell_str)"
    and x: "x = group g 1 @ ''-'' @ zfill 2 (group g 2)"
    by (rule imageE)
  from finditer_ms[OF g] obtain p0 s0 p' s' where
    "(p', s', g) \<in> set (ms space_re (p0, s0, []))" by blast
  from space_groups[OF this] have b: "group g 1 \<in> lang bi_ab" and ds: "group g 2 \<in> lang digits12"
    by auto
  from lang_bi_ab[OF b] lang_digits12[OF ds] show ?thesis unfolding x
    by (auto simp: canonical_group_id_def zfill_def digit_zero digits_1_2_def dest: digit_not_sign)
qed

lemma cell_group_ids_canonical:
  assumes "x \<in> set (cell_group_ids cv)"
  shows "canonical_group_id x"
proof (cases "cv = []")
  case True
  with assms show ?thesis by (simp add: cell_group_ids_def)
next
  case False
  with assms have "x \<in> set (standard_ids (strip (upper cv)))
       \<or> x \<in> set (no_hyphen_ids (strip (upper cv)))
       \<or> x \<in> set (space_ids (strip (upper cv)))"
    by (simp add: cell_group_ids_def Let_def)
  then show ?thesis
    using standard_ids_canonical no_hyphen_ids_canonical space_ids_canonical by blast
qed

lemma extract_canonical: "list_all canonical_group_id (extract_all_group_ids row_data)"
proof -
  have "set (extract_all_group_ids row_data) = (\<Union>c\<in>set row_data. set (cell_group_ids c))"
    by (simp add: extract_all_group_ids_def)
  then show ?thesis using cell_group_ids_canonical by (simp add: list_all_iff)
qed

text \<open>
  Claim C5. Each of the surface forms \<^verbatim>\<open>BIA-1\<close>, \<^verbatim>\<open>BIA01\<close> and \<^verbatim>\<open>BIA 1\<close> in a cell
  gives exactly the list with the one identifier \<^verbatim>\<open>BIA-01\<close>; and for every row, each
  identifier that \<^verbatim>\<open>extract_all_group_ids\<close> returns has the form \<^verbatim>\<open>BI[AB]-NN\<close> with two
  digits, no identifier is returned twice, and the result is sorted.
\<close>

theorem extract_all_group_ids_canonical_sorted:
  "extract_all_group_ids [''BIA-1''] = [''BIA-01'']
   \<and> extract_all_group_ids [''BIA01''] = [''BIA-01'']
   \<and> extract_all_group_ids [''BIA 1''] = [''BIA-01'']
   \<and> list_all canonical_group_id (extract_all_group_ids row_data)
   \<and> distinct (extract_all_group_ids row_data)
   \<and> sorted (extract_all_group_ids row_data)"
proof -
  have a: "extract_all_group_ids [''BIA-1''] = [''BIA-01'']" by code_simp
  have b: "extract_all_group_ids [''BIA01''] = [''BIA-01'']" by code_simp
  have c: "extract_all_group_ids [''BIA 1''] = [''BIA-01'']" by code_simp
  have d: "distinct (extract_all_group_ids row_data)"
    by (simp add: extract_all_group_ids_def)
  have e: "sorted (extract_all_group_ids row_data)"
    by (simp add: extract_all_group_ids_def)
  from a b c d e extract_canonical show ?thesis by simp
qed

section \<open>Header normalizer: fixed points\<close>

text \<open>
  Each canonical header name other than \<^verbatim>\<open>Group ID\<close>, spelled as the source returns
  it (the sponsor header ends in a blank), is a fixed point of
  \<^verbatim>\<open>normalize_column_name\<close>; the sponsor header without the final blank is mapped to
  the one with it.
\<close>

lemma canonical_headers_fixed_points:
  "map normalize_column_name (remove1 ''Group ID'' canonical_headers)
     = map Some (remove1 ''Group ID'' canonical_headers)
   \<and> normalize_column_name ''Name of the sponsored company''
     = Some ''Name of the sponsored company ''"
  by code_simp

text \<open>
  Claim C2 on the code. The canonical name \<^verbatim>\<open>Group ID\<close> is no fixed point: cleaned, it
  is \<^verbatim>\<open>group id\<close>, which the keyword group of \<^verbatim>\<open>Group No.\<close> lists and tests first,
  so the keywords \<^verbatim>\<open>group id\<close> and \<^verbatim>\<open>group nos\<close> of the group of \<^verbatim>\<open>Group ID\<close> can
  never decide, and the normalizer returns \<^verbatim>\<open>Group No.\<close>. A schedule sheet whose
  column is headed \<^verbatim>\<open>Group ID\<close> therefore has no column of that label after
  normalization, and a lookup of \<^verbatim>\<open>Group ID\<close> in its rows gives the default.
\<close>

theorem group_id_header_is_not_fixed:
  "normalize_column_name ''Group ID'' = Some ''Group No.''
   \<and> normalize_column_name ''Group ID'' \<noteq> Some ''Group ID''
   \<and> normalize_column_name ''group nos'' = Some ''Group No.''
   \<and> columns (normalize_dataframe_columns canonical_schedule)
       = [''Track'', ''Name of the Panel'', ''Group No.'', ''Location'']
   \<and> row_get (columns (normalize_dataframe_columns canonical_schedule))
         (hd (rows canonical_schedule)) ''Group ID'' (Scalar (Str []))
       = Scalar (Str [])"
  by code_simp

section \<open>Evaluator assignment excludes the guide\<close>

lemma placeholder_names:
  "normalize_name ''Default Eval 1'' = ''default eval 1''"
  "normalize_name ''Default Eval 2'' = ''default eval 2''"
  by code_simp+

text \<open>
  Claim C3, as stated, fails in the placeholder case: when the guide of the group is
  recorded as \<^verbatim>\<open>Default Eval 1\<close> and every professor of the panel normalizes to the
  same name, nobody is available and the placeholder \<^verbatim>\<open>Default Eval 1\<close> is assigned,
  which normalizes identically to the guide.
\<close>

theorem placeholder_can_equal_guide:
  "map a_guide placeholder_case = [''Default Eval 1'']
   \<and> map evaluator1 placeholder_case = [''Default Eval 1'']
   \<and> map (normalize_name \<circ> evaluator1) placeholder_case
       = map (normalize_name \<circ> a_guide) placeholder_case"
  by code_simp

lemma assignment_shape:
  assumes "a \<in> set (assign_evaluators_from_panel dbs panel_profs group_ids)"
  shows "evaluator1 a = (case available_for (a_guide a) (effective_panel panel_profs) of
                           [] \<Rightarrow> ''Default Eval 1'' | e # _ \<Rightarrow> e)"
    and "evaluator2 a = (case available_for (a_guide a) (effective_panel panel_profs) of
                           _ # e # _ \<Rightarrow> e | _ \<Rightarrow> ''Default Eval 2'')"
    and "a_guide a = (case projects dbs (a_group_id a) of
                        None \<Rightarrow> [] | Some proj_row \<Rightarrow> guide_name proj_row)"
proof -
  let ?profs = "if panel_profs = [] \<or> length panel_profs < 2
      then [''Default Prof 1'', ''Default Prof 2'', ''Default Prof 3''] else panel_profs"
  from assms obtain gid where
    "a = (let guide_nm = (case projects dbs gid of None \<Rightarrow> [] | Some proj_row \<Rightarrow> guide_name proj_row);
               available_evaluators =
                 filter (\<lambda>prof. normalize_name prof \<noteq> normalize_name guide_nm) ?profs;
               eval1 = (case available_evaluators of [] \<Rightarrow> ''Default Eval 1'' | e # _ \<Rightarrow> e);
               eval2 = (case available_evaluators of
                          _ # e # _ \<Rightarrow> e
                        | _ \<Rightarrow> ''Default Eval 2'')
           in \<lparr>a_group_id = gid, a_guide = guide_nm, evaluator1 = eval1, evaluator2 = eval2\<rparr>)"
    unfolding assign_evaluators_from_panel_def Let_def set_map by (elim imageE)
  then show "evaluator1 a = (case available_for (a_guide a) (effective_panel panel_profs) of
                           [] \<Rightarrow> ''Default Eval 1'' | e # _ \<Rightarrow> e)"
    and "evaluator2 a = (case available_for (a_guide a) (effective_panel panel_profs) of
                           _ # e # _ \<Rightarrow> e | _ \<Rightarrow> ''Default Eval 2'')"
    and "a_guide a = (case projects dbs (a_group_id a) of
                        None \<Rightarrow> [] | Some proj_row \<Rightarrow> guide_name proj_row)"
    by (simp_all add: Let_def available_for_def effective_panel_def)
qed

lemma available_differs:
  "e \<in> set (available_for g profs) \<Longrightarrow> e \<in> set profs \<and> normalize_name e \<noteq> normalize_name g"
  by (simp add: available_for_def)

text \<open>
  Claim C3, amended. For every store, panel list and group list, an assignment made by
  \<^verbatim>\<open>assign_evaluators_from_panel\<close> records as guide the guide of the group's project
  (the empty name when there is none); its first and second evaluator are the first and
  the second professor of the panel whose normalized name differs from the guide's, and
  \<^verbatim>\<open>Default Eval 1\<close>, \<^verbatim>\<open>Default Eval 2\<close> where there is no such professor. So an
  evaluator taken from the panel never normalizes to the same name as the guide,
  whatever the guide; the placeholders are not compared with the guide, and both
  evaluators differ from the guide under normalization whenever the guide normalizes
  neither to \<^verbatim>\<open>default eval 1\<close> nor to \<^verbatim>\<open>default eval 2\<close>.
\<close>

theorem evaluators_are_not_the_guide:
  assumes "a \<in> set (assign_evaluators_from_panel dbs panel_profs group_ids)"
  shows "a_guide a = (case projects dbs (a_group_id a) of
                        None \<Rightarrow> [] | Some proj_row \<Rightarrow> guide_name proj_row)
       \<and> evaluator1 a = (case available_for (a_guide a) (effective_panel panel_profs) of
                           [] \<Rightarrow> ''Default Eval 1'' | e # _ \<Rightarrow> e)
       \<and> evaluator2 a = (case available_for (a_guide a) (effective_panel panel_profs) of
                           _ # e # _ \<Rightarrow> e | _ \<Rightarrow> ''Default Eval 2'')
       \<and> (available_for (a_guide a) (effective_panel panel_profs) \<noteq> [] \<longrightarrow>
            evaluator1 a \<in> set (effective_panel panel_profs)
            \<and> normalize_name (evaluator1 a) \<noteq> normalize_name (a_guide a))
       \<and> (2 \<le> length (available_for (a_guide a) (effective_panel panel_profs)) \<longrightarrow>
            evaluator2 a \<in> set (effective_panel panel_profs)
            \<and> normalize_name (evaluator2 a) \<noteq> normalize_name (a_guide a))
       \<and> (normalize_name (a_guide a) \<noteq> ''default eval 1''
            \<and> normalize_name (a_guide a) \<noteq> ''default eval 2'' \<longrightarrow>
            normalize_name (evaluator1 a) \<noteq> normalize_name (a_guide a)
            \<and> normalize_name (evaluator2 a) \<noteq> normalize_name (a_guide a))"
proof -
  define av where "av = available_for (a_guide a) (effective_panel panel_profs)"
  note sh = assignment_shape[OF assms, folded av_def]
  have av: "e \<in> set av \<Longrightarrow>
              e \<in> set (effective_panel panel_profs)
              \<and> normalize_name e \<noteq> normalize_name (a_guide a)" for e
    unfolding av_def by (rule available_differs)
  have p1: "av \<noteq> [] \<longrightarrow> evaluator1 a \<in> set (effective_panel panel_profs)
              \<and> normalize_name (evaluator1 a) \<noteq> normalize_name (a_guide a)"
  proof (cases av)
    case Nil then show ?thesis by simp
  next
    case (Cons e es)
    with sh(1) have "evaluator1 a = e" by simp
    with Cons av[of e] show ?thesis by simp
  qed
  have p2: "2 \<le> length av \<longrightarrow> evaluator2 a \<in> set (effective_panel panel_profs)
              \<and> normalize_name (evaluator2 a) \<noteq> normalize_name (a_guide a)"
  proof (cases av)
    case Nil then show ?thesis by simp
  next
    case (Cons e es)
    show ?thesis
    proof (cases es)
      case Nil with Cons show ?thesis by simp
    next
      case (Cons e' es')
      with \<open>av = e # es\<close> sh(2) have "evaluator2 a = e'" by simp
      with Cons \<open>av = e # es\<close> av[of e'] show ?thesis by simp
    qed
  qed
  have d1: "av = [] \<Longrightarrow> normalize_name (evaluator1 a) = ''default eval 1''"
    using sh(1) by (simp add: placeholder_names)
  have d2: "length av < 2 \<Longrightarrow> normalize_name (evaluator2 a) = ''default eval 2''"
  proof -
    assume "length av < 2"
    then have "av = [] \<or> (\<exists>e. av = [e])" by (cases av; cases "tl av") auto
    with sh(2) have "evaluator2 a = ''Default Eval 2''" by auto
    then show ?thesis by (simp only: placeholder_names)
  qed
  have p3: "normalize_name (a_guide a) \<noteq> ''default eval 1''
            \<and> normalize_name (a_guide a) \<noteq> ''default eval 2'' \<longrightarrow>
            normalize_name (evaluator1 a) \<noteq> normalize_name (a_guide a)
            \<and> normalize_name (evaluator2 a) \<noteq> normalize_name (a_guide a)"
  proof (intro impI conjI)
    assume g: "normalize_name (a_guide a) \<noteq> ''default eval 1''
                \<and> normalize_name (a_guide a) \<noteq> ''default eval 2''"
    show "normalize_name (evaluator1 a) \<noteq> normalize_name (a_guide a)"
    proof (cases "av = []")
      case True
      from d1[OF True] g show ?thesis by metis
    next
      case False
      with p1 show ?thesis by simp
    qed
    show "normalize_name (evaluator2 a) \<noteq> normalize_name (a_guide a)"
    proof (cases "length av < 2")
      case True
      from d2[OF True] g show ?thesis by metis
    next
      case False
      with p2 show ?thesis by simp
    qed
  qed
  from sh p1 p2 p3 show ?thesis unfolding av_def by blast
qed

theorem evaluators_are_not_the_guide_witness:
  "normalize_name (evaluator1 (hd sharma_case)) \<noteq> normalize_name (a_guide (hd sharma_case))
   \<and> normalize_name (evaluator2 (hd sharma_case)) \<noteq> normalize_name (a_guide (hd sharma_case))
   \<and> a_guide (hd sharma_case) = ''a b sharma''
   \<and> evaluator1 (hd sharma_case) = ''Prof. X Y Rao''
   \<and> evaluator2 (hd sharma_case) = ''Dr. Z W Iyer''
   \<and> available_for (a_guide (hd sharma_case))
        (effective_panel [''Dr. A B Sharma'', ''Prof. X Y Rao'', ''Dr. Z W Iyer''])
       = [''Prof. X Y Rao'', ''Dr. Z W Iyer'']
   \<and> normalize_name ''Dr. A B Sharma'' = normalize_name ''a b sharma''"
proof -
  have mem: "hd sharma_case \<in> set (assign_evaluators_from_panel (db_with_guide ''a b sharma'')
               [''Dr. A B Sharma'', ''Prof. X Y Rao'', ''Dr. Z W Iyer''] [''BIA-01''])"
    by code_simp
  have g: "normalize_name (a_guide (hd sharma_case)) \<noteq> ''default eval 1''
           \<and> normalize_name (a_guide (hd sharma_case)) \<noteq> ''default eval 2''"
    by code_simp
  have av: "available_for (a_guide (hd sharma_case))
        (effective_panel [''Dr. A B Sharma'', ''Prof. X Y Rao'', ''Dr. Z W Iyer''])
       = [''Prof. X Y Rao'', ''Dr. Z W Iyer'']"
    by code_simp
  have m: "a_guide (hd sharma_case) = ''a b sharma''"
    by code_simp
  have n: "normalize_name ''Dr. A B Sharma'' = normalize_name ''a b sharma''"
    by code_simp
  from evaluators_are_not_the_guide [OF mem] have
    e: "evaluator1 (hd sharma_case)
          = (case available_for (a_guide (hd sharma_case))
                  (effective_panel [''Dr. A B Sharma'', ''Prof. X Y Rao'', ''Dr. Z W Iyer'']) of
               [] \<Rightarrow> ''Default Eval 1'' | e # _ \<Rightarrow> e)"
       "evaluator2 (hd sharma_case)
          = (case available_for (a_guide (hd sharma_case))
                  (effective_panel [''Dr. A B Sharma'', ''Prof. X Y Rao'', ''Dr. Z W Iyer'']) of
               _ # e # _ \<Rightarrow> e | _ \<Rightarrow> ''Default Eval 2'')"
    and d: "normalize_name (evaluator1 (hd sharma_case)) \<noteq> normalize_name (a_guide (hd sharma_case))"
       "normalize_name (evaluator2 (hd sharma_case)) \<noteq> normalize_name (a_guide (hd sharma_case))"
    using g by blast+
  from e have "evaluator1 (hd sharma_case) = ''Prof. X Y Rao''"
    "evaluator2 (hd sharma_case) = ''Dr. Z W Iyer''"
    by (simp_all only: av list.case)
  with d m av n show ?thesis by (simp only: simp_thms)
qed

section \<open>Sheet classifier: which sheet a role is mapped to\<close>

lemma detect_sheet_role:
  "detected_role r (detect_sheet d n)
     = (if sheet_role n = Some r then Some n else detected_role r d)"
  by (cases r) (simp_all add: detect_sheet_def sheet_role_def Let_def)

lemma foldl_detect_role:
  "detected_role r (foldl detect_sheet d names)
     = (case last_opt (sheets_of_role r names) of None \<Rightarrow> detected_role r d | Some n \<Rightarrow> Some n)"
proof (induction names rule: rev_induct)
  case Nil
  then show ?case by (simp add: sheets_of_role_def last_opt_def)
next
  case (snoc n names)
  then show ?case
    by (simp add: detect_sheet_role sheets_of_role_def last_opt_def)
qed

text \<open>
  Claim C10, as stated, fails for a role that is tested after another one: of the two
  names \<^verbatim>\<open>DIV B\<close> and \<^verbatim>\<open>DIV A - DIV B\<close> both match the keyword set of division B and
  the second is the last that does, but the classifier gives the second to division A and
  maps division B to the first.
\<close>

theorem last_keyword_match_is_not_detected:
  "last_opt (keyword_matches DivB [''DIV B'', ''DIV A - DIV B'']) = Some ''DIV A - DIV B''
   \<and> div_b (detect_and_normalize_sheets_robust [''DIV B'', ''DIV A - DIV B'']) = Some ''DIV B''
   \<and> div_a (detect_and_normalize_sheets_robust [''DIV B'', ''DIV A - DIV B''])
       = Some ''DIV A - DIV B''"
  by code_simp

text \<open>
  Claim C10, amended. The classifier maps each role to the last sheet, in workbook order,
  that it classifies to that role, where a sheet is classified to the first of division A,
  division B and schedule whose keyword set its name matches (and the role stays
  undetected when there is no such sheet); for division A, which is tested first, this is
  the last sheet whose name matches the division-A markers.
\<close>

theorem detect_maps_role_to_last_classified_sheet:
  "detected_role r (detect_and_normalize_sheets_robust names) = last_opt (sheets_of_role r names)
   \<and> div_a (detect_and_normalize_sheets_robust names) = last_opt (keyword_matches DivA names)"
proof -
  have a: "detected_role r (detect_and_normalize_sheets_robust names)
             = last_opt (sheets_of_role r names)" for r
    unfolding detect_and_normalize_sheets_robust_def foldl_detect_role
    by (cases r) (simp_all split: option.splits)
  have "sheets_of_role DivA names = keyword_matches DivA names"
    unfolding sheets_of_role_def keyword_matches_def
    by (rule filter_cong) (auto simp: sheet_role_def Let_def)
  with a[of DivA] a[of r] show ?thesis by simp
qed

section \<open>Import: rejection when a role is missing\<close>

lemma missing_sheets_nonempty:
  "missing_sheets d \<noteq> [] \<longleftrightarrow> (div_a d = None \<or> div_b d = None \<or> schedule d = None)"
  by (simp add: missing_sheets_def)

text \<open>
  Claim C6. When the workbook can be opened and the classifier leaves one of the three
  roles undetected, \<^verbatim>\<open>import_excel\<close> answers with the error that carries the missing
  roles (each undetected role and no other), the full list of sheet names and the
  detection result, and the system is as before: the stored workbook slot and the three
  tables are untouched.
\<close>

theorem import_rejects_when_role_missing:
  assumes "excel_file (file_bytes f) = Some x"
    and "d = detect_and_normalize_sheets_robust (sheet_names x)"
    and "div_a d = None \<or> div_b d = None \<or> schedule d = None"
  shows "import_excel excel_file str_series now sys (Some f)
           = (CouldNotDetect (missing_sheets d) (sheet_names x) d, sys)
         \<and> (''div_a'' \<in> set (missing_sheets d) \<longleftrightarrow> div_a d = None)
         \<and> (''div_b'' \<in> set (missing_sheets d) \<longleftrightarrow> div_b d = None)
         \<and> (''schedule'' \<in> set (missing_sheets d) \<longleftrightarrow> schedule d = None)"
proof -
  from assms(3) have "missing_sheets d \<noteq> []" by (simp add: missing_sheets_nonempty)
  with assms(1,2) have "import_excel excel_file str_series now sys (Some f)
           = (CouldNotDetect (missing_sheets d) (sheet_names x) d, sys)"
    by (simp add: import_excel_def Let_def)
  then show ?thesis by (simp add: missing_sheets_def)
qed

theorem import_rejects_when_role_missing_witness:
  "import_excel (\<lambda>bytes. Some two_sheet_xls) (\<lambda>vs. []) ''2025-01-01 10:00:00'' system_in_use
     (Some two_sheet_upload)
   = (CouldNotDetect [''div_b'', ''schedule''] [''FINAL DIV-A'', ''Notes'']
        \<lparr>div_a = Some ''FINAL DIV-A'', div_b = None, schedule = None\<rparr>,
      system_in_use)"
proof -
  let ?d = "\<lparr>div_a = Some ''FINAL DIV-A'', div_b = None, schedule = None\<rparr>"
  have d: "?d = detect_and_normalize_sheets_robust (sheet_names two_sheet_xls)"
    by code_simp
  have n: "sheet_names two_sheet_xls = [''FINAL DIV-A'', ''Notes'']"
    by (simp add: two_sheet_xls_def)
  have m: "missing_sheets ?d = [''div_b'', ''schedule'']"
    by (simp add: missing_sheets_def)
  have "div_a ?d = None \<or> div_b ?d = None \<or> schedule ?d = None" by simp
  from import_rejects_when_role_missing
         [of "\<lambda>bytes. Some two_sheet_xls" two_sheet_upload two_sheet_xls ?d
             "\<lambda>vs. []" "''2025-01-01 10:00:00''" system_in_use, OF refl d this]
  show ?thesis by (simp only: n m)
qed

section \<open>Roster ingestor: the end-to-end scenario\<close>

lemma scenario_columns:
  "normalize_dataframe_columns scenario_div_a
     = \<lparr>columns = [''Group No.'', ''Roll No.'', ''Name of the group member''],
        rows = [[Str ''BIA1'', Str ''21'', Str ''Asha K''], [Null, Str ''22'', Str ''Ravi M'']]\<rparr>"
  by code_simp

lemma scenario_not_empty: "\<not> df_empty scenario_div_a"
  by code_simp

lemma strip_plain:
  "strip ''BIA1'' = ''BIA1''" "strip ''21'' = ''21''" "strip ''22'' = ''22''"
  "strip ''Asha K'' = ''Asha K''" "strip ''Ravi M'' = ''Ravi M''" "strip [] = []"
  by code_simp+

lemma scenario_group_id: "normalize_group_id ''BIA1'' = ''BIA1''"
  by code_simp

lemma roster_cells:
  "roster_get [''Group No.'', ''Roll No.'', ''Name of the group member''] [a, b, c] ''Group No.'' = a"
  "roster_get [''Group No.'', ''Roll No.'', ''Name of the group member''] [a, b, c] ''Roll No.'' = b"
  "roster_get [''Group No.'', ''Roll No.'', ''Name of the group member''] [a, b, c]
     ''Name of the group member'' = c"
  "roster_get [''Group No.'', ''Roll No.'', ''Name of the group member''] [a, b, c]
     ''Contact details'' = Str []"
  "roster_get [''Group No.'', ''Roll No.'', ''Name of the group member''] [a, b, c]
     ''Project Domain'' = Str []"
  "roster_get [''Group No.'', ''Roll No.'', ''Name of the group member''] [a, b, c]
     ''Title of the Project'' = Str []"
  "roster_get [''Group No.'', ''Roll No.'', ''Name of the group member''] [a, b, c]
     ''Name of the sponsored company '' = Str []"
  "roster_get [''Group No.'', ''Roll No.'', ''Name of the group member''] [a, b, c]
     ''Name of the Guide'' = Str []"
  by (simp_all add: roster_get_def row_get_def)

lemma scenario_row1:
  "process_division_row ''A'' [''Group No.'', ''Roll No.'', ''Name of the group member'']
     \<lparr>group_id = None, processed_groups = [], processed_members = 0, tables = empty_db\<rparr>
     [Str ''BIA1'', Str ''21'', Str ''Asha K'']
   = \<lparr>group_id = Some ''BIA1'', processed_groups = [''BIA1''], processed_members = 1,
      tables = \<lparr>projects = [''BIA1'' \<mapsto>
             \<lparr>division = ''A'', project_domain = [], project_title = [], sponsor_company = [],
              guide_name = [], mentor_name = [], mentor_email = [], mentor_mobile = [],
              evaluator1_name = [], evaluator2_name = []\<rparr>],
         members = [(''BIA1'', ''21'') \<mapsto> \<lparr>student_name = ''Asha K'', contact_details = []\<rparr>],
         panel_assignments = Map.empty\<rparr>\<rparr>"
  by (simp add: process_division_row_def Let_def roster_cells notnull_def text_field_def
      strip_plain scenario_group_id insert_ignore_def empty_db_def)

lemma scenario_row2:
  "process_division_row ''A'' [''Group No.'', ''Roll No.'', ''Name of the group member'']
     \<lparr>group_id = Some ''BIA1'', processed_groups = [''BIA1''], processed_members = 1,
      tables = \<lparr>projects = ps,
         members = [(''BIA1'', ''21'') \<mapsto> \<lparr>student_name = ''Asha K'', contact_details = []\<rparr>],
         panel_assignments = Map.empty\<rparr>\<rparr>
     [Null, Str ''22'', Str ''Ravi M'']
   = \<lparr>group_id = Some ''BIA1'', processed_groups = [''BIA1''], processed_members = 2,
      tables = \<lparr>projects = ps,
         members = [(''BIA1'', ''21'') \<mapsto> \<lparr>student_name = ''Asha K'', contact_details = []\<rparr>,
                    (''BIA1'', ''22'') \<mapsto> \<lparr>student_name = ''Ravi M'', contact_details = []\<rparr>],
         panel_assignments = Map.empty\<rparr>\<rparr>"
  by (simp add: process_division_row_def Let_def roster_cells notnull_def text_field_def
      strip_plain insert_ignore_def)

text \<open>
  The branch that is to normalize the group identifier changes nothing, whatever the
  header: its second test implies the first, which passes.
\<close>

lemma startswith_BI: "startswith gid ''BIA'' \<or> startswith gid ''BIB'' \<Longrightarrow> startswith gid ''BI''"
proof -
  have "startswith gid (''BI'' @ [c]) \<Longrightarrow> startswith gid ''BI''" for c
    by (cases gid; cases "tl gid"; cases "tl (tl gid)") auto
  from this[of "CHR ''A''"] this[of "CHR ''B''"] show
    "startswith gid ''BIA'' \<or> startswith gid ''BIB'' \<Longrightarrow> startswith gid ''BI''"
    by auto
qed

lemma normalize_group_id_changes_nothing: "normalize_group_id gid = gid"
  using startswith_BI[of gid] by (auto simp: normalize_group_id_def)

lemma scenario_walk:
  "process_division_enhanced_with_normalization empty_db scenario_div_a ''A''
     = ((1, 2), scenario_tables)"
proof -
  let ?cols = "[''Group No.'', ''Roll No.'', ''Name of the group member'']"
  let ?init = "\<lparr>group_id = None, processed_groups = [], processed_members = 0,
                  tables = empty_db\<rparr>"
  have "foldl (process_division_row ''A'' ?cols) ?init
          [[Str ''BIA1'', Str ''21'', Str ''Asha K''], [Null, Str ''22'', Str ''Ravi M'']]
        = process_division_row ''A'' ?cols
            (process_division_row ''A'' ?cols ?init [Str ''BIA1'', Str ''21'', Str ''Asha K''])
            [Null, Str ''22'', Str ''Ravi M'']"
    by (simp only: foldl.simps)
  then have walk: "foldl (process_division_row ''A'' ?cols) ?init
          [[Str ''BIA1'', Str ''21'', Str ''Asha K''], [Null, Str ''22'', Str ''Ravi M'']]
        = \<lparr>group_id = Some ''BIA1'', processed_groups = [''BIA1''], processed_members = 2,
            tables = scenario_tables\<rparr>"
    by (simp only: scenario_row1 scenario_row2 scenario_tables_def)
  show ?thesis
    unfolding process_division_enhanced_with_normalization_def Let_def
    by (simp only: scenario_not_empty if_False scenario_columns frame.select_convs walk) simp
qed

lemma no_rows_division:
  "process_division_enhanced_with_normalization dbs (no_rows cols) d = ((0, 0), dbs)"
  by (simp add: process_division_enhanced_with_normalization_def df_empty_def no_rows_def)

lemma no_rows_normalized: "normalize_dataframe_columns (no_rows cols) = no_rows cols"
  by (simp add: normalize_dataframe_columns_def df_empty_def no_rows_def)

text \<open>
  Claim C1 on the code. For the division-A sheet of the scenario the ingestor keys the
  project and both members by \<^verbatim>\<open>BIA1\<close>, the header as it stands in the sheet: one group
  and two members are counted, the Project table has the single key \<^verbatim>\<open>BIA1\<close>, the
  Member table the keys \<^verbatim>\<open>(BIA1, 21)\<close> and \<^verbatim>\<open>(BIA1, 22)\<close>, and there is no row
  under \<^verbatim>\<open>BIA-01\<close>. A full reconciliation of the workbook, with no data row in the
  division-B and schedule sheets, ends with the same tables. The group-identifier extractor
  reads the same header as \<^verbatim>\<open>BIA-01\<close>.
\<close>

theorem scenario_is_keyed_by_raw_header:
  "process_division_enhanced_with_normalization empty_db scenario_div_a ''A''
     = ((1, 2), scenario_tables)
   \<and> process_all_data_with_normalization str_series dbs scenario_div_a (no_rows bcols)
       (no_rows scols)
     = (\<lparr>div_a_groups = 1, div_b_groups = 0, scheduled_groups = 0, total_processed = 1\<rparr>,
        scenario_tables)
   \<and> dom (projects scenario_tables) = {''BIA1''}
   \<and> dom (members scenario_tables) = {(''BIA1'', ''21''), (''BIA1'', ''22'')}
   \<and> projects scenario_tables ''BIA-01'' = None
   \<and> extract_all_group_ids [''BIA1''] = [''BIA-01'']"
proof -
  have all: "process_all_data_with_normalization str_series dbs scenario_div_a (no_rows bcols)
       (no_rows scols)
     = (\<lparr>div_a_groups = 1, div_b_groups = 0, scheduled_groups = 0, total_processed = 1\<rparr>,
        scenario_tables)"
    by (simp add: process_all_data_with_normalization_def cleared_tables scenario_walk
        no_rows_division no_rows_normalized schedule_walk_def)
       (simp add: no_rows_def)
  have doms: "dom (projects scenario_tables) = {''BIA1''}"
    "dom (members scenario_tables) = {(''BIA1'', ''21''), (''BIA1'', ''22'')}"
    "projects scenario_tables ''BIA-01'' = None"
    by (auto simp: scenario_tables_def)
  have ex: "extract_all_group_ids [''BIA1''] = [''BIA-01'']" by code_simp
  from scenario_walk all doms ex show ?thesis by simp
qed

section \<open>Roster ingestor: carry-forward\<close>

lemma row_without_header_dropped:
  assumes "group_id st = None" and "\<not> has_group_header cols vals"
  shows "process_division_row d cols st vals = st"
proof -
  from assms(2) have c:
    "(notnull (roster_get cols vals ''Group No.'')
      \<and> strip (str_cell (roster_get cols vals ''Group No.'')) \<noteq> []) = False"
    by (simp add: has_group_header_def)
  show ?thesis
    unfolding process_division_row_def Let_def c using assms(1) by simp
qed

lemma rows_normalize [simp]: "rows (normalize_dataframe_columns df) = rows df"
  by (simp add: normalize_dataframe_columns_def)

lemma rows_without_header_dropped:
  "group_id st = None \<Longrightarrow> \<forall>vals\<in>set pre. \<not> has_group_header cols vals \<Longrightarrow>
   foldl (process_division_row d cols) st pre = st"
  by (induction pre) (simp_all add: row_without_header_dropped)

text \<open>
  Claim C7. In a division sheet, the rows that stand before the first row with a
  non-blank group cell leave no trace: ingesting the sheet gives the same counts and the
  same tables as ingesting it without those rows. So a member row before any group header
  inserts no Member and is not attached to a header that comes later.
\<close>

theorem members_before_first_header_are_dropped:
  assumes "\<forall>vals\<in>set pre.
             \<not> has_group_header
                 (columns (normalize_dataframe_columns \<lparr>columns = cols, rows = pre @ post\<rparr>)) vals"
  shows "process_division_enhanced_with_normalization dbs \<lparr>columns = cols, rows = pre @ post\<rparr> d
         = process_division_enhanced_with_normalization dbs \<lparr>columns = cols, rows = post\<rparr> d"
proof (cases "cols = [] \<or> pre = []")
  case True
  then show ?thesis
    by (auto simp: process_division_enhanced_with_normalization_def df_empty_def)
next
  case False
  let ?init = "\<lparr>group_id = None, processed_groups = [], processed_members = 0, tables = dbs\<rparr>"
  let ?ncols = "columns (normalize_dataframe_columns \<lparr>columns = cols, rows = pre @ post\<rparr>)"
  from False have ne: "\<not> df_empty \<lparr>columns = cols, rows = pre @ post\<rparr>"
    by (simp add: df_empty_def)
  have pre: "foldl (process_division_row d ?ncols) ?init pre = ?init"
    using assms by (intro rows_without_header_dropped) simp_all
  show ?thesis
  proof (cases "post = []")
    case True
    with ne pre show ?thesis
      by (simp add: process_division_enhanced_with_normalization_def df_empty_def Let_def)
  next
    case post: False
    with False have same:
      "columns (normalize_dataframe_columns \<lparr>columns = cols, rows = post\<rparr>) = ?ncols"
      by (simp add: normalize_dataframe_columns_def df_empty_def)
    from post False have ne': "\<not> df_empty \<lparr>columns = cols, rows = post\<rparr>"
      by (simp add: df_empty_def)
    show ?thesis
      unfolding process_division_enhanced_with_normalization_def Let_def
      using ne ne' by (simp add: same pre)
  qed
qed

theorem members_before_first_header_are_dropped_witness:
  "process_division_enhanced_with_normalization empty_db orphan_first_div_a ''A''
     = process_division_enhanced_with_normalization empty_db
         \<lparr>columns = [''Group No.'', ''Roll No.'', ''Name''],
          rows = [[Str ''BIA-01'', Str ''21'', Str ''Asha K'']]\<rparr> ''A''"
proof -
  have h: "\<forall>vals\<in>set [[Null, Str ''20'', Str ''Early E'']].
             \<not> has_group_header
                 (columns (normalize_dataframe_columns
                    \<lparr>columns = [''Group No.'', ''Roll No.'', ''Name''],
                     rows = [[Null, Str ''20'', Str ''Early E'']]
                            @ [[Str ''BIA-01'', Str ''21'', Str ''Asha K'']]\<rparr>)) vals"
    by code_simp
  show ?thesis
    using members_before_first_header_are_dropped [OF h, of empty_db "''A''"]
    by (simp add: orphan_first_div_a_def)
qed

section \<open>Row-level failures\<close>

















section \<open>Full reconciliation is a rebuild\<close>


section \<open>Cell edits and the style of the cell\<close>
















end
